theory Spec2Isabelle
  imports Main "HOL-Library.Signed_Division"
begin

section \<open>Data model\<close>

text \<open>
  The registry storage engine of kontrol (\<^verbatim>\<open>Postgres\<close> in package kontrol) is embedded
  as state-passing functions over a record that holds the \<^verbatim>\<open>kite\<close> table, the calls made
  to \<^verbatim>\<open>database/sql\<close> and the lines written to the logger. Points in time and
  \<^verbatim>\<open>time.Duration\<close> values are integers counting nanoseconds.
\<close>

type_synonym time = int
type_synonym Duration = int

text \<open>Logging levels of package kite, in the order of the \<^verbatim>\<open>iota\<close> block.\<close>

datatype Level = FATAL | ERROR | WARNING | INFO | DEBUG

text \<open>
  Go \<^verbatim>\<open>error\<close> values, by origin: \<^verbatim>\<open>errors.New\<close> in this package, \<^verbatim>\<open>net/url\<close>,
  \<^verbatim>\<open>go-version\<close>, \<^verbatim>\<open>squirrel\<close>, and the store (driver failures of any cause, and the
  primary-key violation, which the table model raises by itself).
\<close>

datatype error =
    ErrorsNew string
  | UrlError string
  | VersionError string
  | BuilderError string
  | DriverError string
  | UniqueViolation string

text \<open>
  Modelled from the spec: \<^verbatim>\<open>protocol.Kite\<close>, declared in package protocol, is the
  identity tuple (username, environment, name, version, region, hostname, id) of one
  service instance; \<^verbatim>\<open>Get\<close> fills in exactly these fields.
\<close>

record Kite =
  Username :: string
  Environment :: string
  Name :: string
  Version :: string
  Region :: string
  Hostname :: string
  ID :: string

text \<open>
  Modelled from the spec: \<^verbatim>\<open>protocol.KontrolQuery\<close>, declared in package protocol,
  has the same field set, used as a sparse filter; an empty string is a field left open.
\<close>

record KontrolQuery =
  Username :: string
  Environment :: string
  Name :: string
  Version :: string
  Region :: string
  Hostname :: string
  ID :: string

text \<open>
  Modelled from the spec: \<^verbatim>\<open>kontrolprotocol.RegisterValue\<close>, declared in package
  kontrol/protocol, holds the endpoint URL.
\<close>

record RegisterValue =
  URL :: string

text \<open>
  \<^verbatim>\<open>protocol.KiteWithToken\<close>, declared in package protocol, with the two fields the
  composite literal in \<^verbatim>\<open>Get\<close> sets.
\<close>

record KiteWithToken =
  Kite :: Kite
  URL :: string

type_synonym Kites = "KiteWithToken list"

text \<open>One row of the table created by \<^verbatim>\<open>NewPostgres\<close>; the column \<^verbatim>\<open>id\<close> is \<open>id_col\<close>.\<close>

record row =
  username :: string
  environment :: string
  kitename :: string
  version :: string
  region :: string
  hostname :: string
  id_col :: string
  url :: string
  created_at :: time
  updated_at :: time

text \<open>
  The SQL statements of the package. \<open>Select\<close> and \<open>Insert\<close> are what the squirrel
  builders hold (result columns, table, the \<^verbatim>\<open>sq.And\<close> list of \<^verbatim>\<open>sq.Eq\<close> pairs; table,
  columns, values). The other three are the literal statements with their arguments:
  \<open>UpdateKite url id\<close> is
  \<^verbatim>\<open>UPDATE kite SET url = $1, updated_at = (now() at time zone 'utc') WHERE id = $2\<close>,
  \<open>DeleteKite id\<close> is \<^verbatim>\<open>DELETE FROM kite WHERE id = $1\<close>, and \<open>CleanOldRows n\<close> is
  \<^verbatim>\<open>DELETE FROM kite WHERE updated_at < (now() at time zone 'utc') - ((INTERVAL '1 second') * $1)\<close>.
\<close>

datatype statement =
    Select "string list" string "(string \<times> string) list"
  | Insert string "string list" "string list"
  | UpdateKite string string
  | DeleteKite string
  | CleanOldRows int

datatype call =
    DBBegin
  | DBExec statement
  | DBQuery statement
  | TxExec statement
  | TxCommit
  | TxRollback

datatype log_arg = ArgError error | ArgInt int

type_synonym log_entry = "Level \<times> string \<times> log_arg list"

text \<open>
  The state behind a \<^verbatim>\<open>*Postgres\<close>: the rows of table \<^verbatim>\<open>kite\<close>; the outcomes the
  store will give to the next calls into \<^verbatim>\<open>database/sql\<close> (\<open>Some e\<close>: the call fails with
  \<open>e\<close>; \<open>None\<close>, or a used-up list: it is carried out), which stands for every failure
  the table model does not produce itself; the calls made so far, oldest first; and the
  lines handed to \<^verbatim>\<open>p.Log\<close>, oldest first.
\<close>

record Postgres =
  kite :: "row list"
  faults :: "error option list"
  trace :: "call list"
  Log :: "log_entry list"

section \<open>The store\<close>

definition driver_outcome :: "Postgres \<Rightarrow> error option \<times> Postgres" where
  "driver_outcome p =
     (case faults p of
        [] \<Rightarrow> (None, p)
      | f # fs \<Rightarrow> (f, p\<lparr>faults := fs\<rparr>))"

definition record_call :: "call \<Rightarrow> Postgres \<Rightarrow> Postgres" where
  "record_call c p = p\<lparr>trace := trace p @ [c]\<rparr>"

definition text_columns :: "string list" where
  "text_columns =
     [''username'', ''environment'', ''kitename'', ''version'', ''region'', ''hostname'',
      ''id'', ''url'']"

definition column :: "string \<Rightarrow> row \<Rightarrow> string option" where
  "column c r =
     (if c = ''username'' then Some (username r)
      else if c = ''environment'' then Some (environment r)
      else if c = ''kitename'' then Some (kitename r)
      else if c = ''version'' then Some (version r)
      else if c = ''region'' then Some (region r)
      else if c = ''hostname'' then Some (hostname r)
      else if c = ''id'' then Some (id_col r)
      else if c = ''url'' then Some (url r)
      else None)"

text \<open>A row satisfies a conjunction of equalities when every named column holds the value.\<close>

definition row_matches :: "(string \<times> string) list \<Rightarrow> row \<Rightarrow> bool" where
  "row_matches wh r = list_all (\<lambda>cv. column (fst cv) r = Some (snd cv)) wh"

definition value_of :: "(string \<times> string) list \<Rightarrow> string \<Rightarrow> string" where
  "value_of m c = (case map_of m c of None \<Rightarrow> [] | Some v \<Rightarrow> v)"

text \<open>
  \<^verbatim>\<open>INSERT INTO kite (cols) VALUES (vals)\<close> at time \<open>now\<close>: every text column is
  \<^verbatim>\<open>NOT NULL\<close> without default, the two timestamps default to the current time, and
  \<^verbatim>\<open>id\<close> is the primary key.
\<close>

definition insert_row :: "time \<Rightarrow> string list \<Rightarrow> string list \<Rightarrow> row list \<Rightarrow> error + row list" where
  "insert_row now cols vals t =
     (if length cols = length vals \<and> distinct cols
         \<and> list_all (\<lambda>c. c \<in> set text_columns) cols
         \<and> list_all (\<lambda>c. c \<in> set cols) text_columns
      then
        (let m = zip cols vals;
             r = \<lparr>username = value_of m ''username'',
                  environment = value_of m ''environment'',
                  kitename = value_of m ''kitename'',
                  version = value_of m ''version'',
                  region = value_of m ''region'',
                  hostname = value_of m ''hostname'',
                  id_col = value_of m ''id'',
                  url = value_of m ''url'',
                  created_at = now,
                  updated_at = now\<rparr>
         in if list_ex (\<lambda>x. id_col x = id_col r) t
            then Inl (UniqueViolation ''kite_pkey'')
            else Inr (t @ [r]))
      else Inl (DriverError ''insert: columns''))"

text \<open>What a statement does to the table at time \<open>now\<close>, and how many rows it affects.\<close>

fun run_exec :: "time \<Rightarrow> statement \<Rightarrow> row list \<Rightarrow> error + (row list \<times> int)" where
  "run_exec now (UpdateKite u i) t =
     Inr (map (\<lambda>r. if id_col r = i then r\<lparr>url := u, updated_at := now\<rparr> else r) t,
          int (length (filter (\<lambda>r. id_col r = i) t)))"
| "run_exec now (DeleteKite i) t =
     Inr (filter (\<lambda>r. id_col r \<noteq> i) t, int (length (filter (\<lambda>r. id_col r = i) t)))"
| "run_exec now (CleanOldRows n) t =
     Inr (filter (\<lambda>r. \<not> updated_at r < now - 1000000000 * n) t,
          int (length (filter (\<lambda>r. updated_at r < now - 1000000000 * n) t)))"
| "run_exec now (Insert tab cols vals) t =
     (if tab = ''kite''
      then (case insert_row now cols vals t of
              Inl e \<Rightarrow> Inl e
            | Inr t' \<Rightarrow> Inr (t', 1))
      else Inl (DriverError ''relation does not exist''))"
| "run_exec now (Select cols tab wh) t = Inr (t, 0)"

text \<open>The rows a query returns, in table order.\<close>

fun run_query :: "statement \<Rightarrow> row list \<Rightarrow> error + row list" where
  "run_query (Select cols tab wh) t =
     (if tab = ''kite'' \<and> cols = [''*'']
      then (if list_all (\<lambda>cv. fst cv \<in> set text_columns) wh
            then Inr (filter (row_matches wh) t)
            else Inl (DriverError ''column does not exist''))
      else Inl (DriverError ''relation or column does not exist''))"
| "run_query (Insert tab cols vals) t = Inl (DriverError ''not a query'')"
| "run_query (UpdateKite u i) t = Inl (DriverError ''not a query'')"
| "run_query (DeleteKite i) t = Inl (DriverError ''not a query'')"
| "run_query (CleanOldRows n) t = Inl (DriverError ''not a query'')"

text \<open>\<^verbatim>\<open>p.DB.Exec\<close>: one statement in its own transaction, at store time \<open>now\<close>.\<close>

definition DB_Exec :: "time \<Rightarrow> statement \<Rightarrow> Postgres \<Rightarrow> (error + int) \<times> Postgres" where
  "DB_Exec now st p =
     (case driver_outcome (record_call (DBExec st) p) of
        (Some e, p1) \<Rightarrow> (Inl e, p1)
      | (None, p1) \<Rightarrow>
          (case run_exec now st (kite p1) of
             Inl e \<Rightarrow> (Inl e, p1)
           | Inr (t', n) \<Rightarrow> (Inr n, p1\<lparr>kite := t'\<rparr>)))"

text \<open>\<^verbatim>\<open>sql.Result.RowsAffected\<close>.\<close>

definition RowsAffected :: "int \<Rightarrow> Postgres \<Rightarrow> (int \<times> error option) \<times> Postgres" where
  "RowsAffected res p =
     (case driver_outcome p of
        (Some e, p1) \<Rightarrow> ((0, Some e), p1)
      | (None, p1) \<Rightarrow> ((res, None), p1))"

text \<open>\<^verbatim>\<open>p.DB.Query\<close>.\<close>

definition DB_Query :: "statement \<Rightarrow> Postgres \<Rightarrow> (error + row list) \<times> Postgres" where
  "DB_Query st p =
     (case driver_outcome (record_call (DBQuery st) p) of
        (Some e, p1) \<Rightarrow> (Inl e, p1)
      | (None, p1) \<Rightarrow>
          (case run_query st (kite p1) of
             Inl e \<Rightarrow> (Inl e, p1)
           | Inr rs \<Rightarrow> (Inr rs, p1)))"

text \<open>
  A transaction \<^verbatim>\<open>*sql.Tx\<close> is the table as the transaction sees it; the stored table
  changes only when \<^verbatim>\<open>Commit\<close> is carried out.
\<close>

definition DB_Begin :: "Postgres \<Rightarrow> (error + row list) \<times> Postgres" where
  "DB_Begin p =
     (case driver_outcome (record_call DBBegin p) of
        (Some e, p1) \<Rightarrow> (Inl e, p1)
      | (None, p1) \<Rightarrow> (Inr (kite p1), p1))"

definition Tx_Exec :: "time \<Rightarrow> statement \<Rightarrow> row list \<Rightarrow> Postgres \<Rightarrow> (error + int) \<times> row list \<times> Postgres" where
  "Tx_Exec now st tx p =
     (case driver_outcome (record_call (TxExec st) p) of
        (Some e, p1) \<Rightarrow> (Inl e, tx, p1)
      | (None, p1) \<Rightarrow>
          (case run_exec now st tx of
             Inl e \<Rightarrow> (Inl e, tx, p1)
           | Inr (tx', n) \<Rightarrow> (Inr n, tx', p1)))"

definition Tx_Rollback :: "row list \<Rightarrow> Postgres \<Rightarrow> error option \<times> Postgres" where
  "Tx_Rollback tx p = driver_outcome (record_call TxRollback p)"

definition Tx_Commit :: "row list \<Rightarrow> Postgres \<Rightarrow> error option \<times> Postgres" where
  "Tx_Commit tx p =
     (case driver_outcome (record_call TxCommit p) of
        (Some e, p1) \<Rightarrow> (Some e, p1)
      | (None, p1) \<Rightarrow> (None, p1\<lparr>kite := tx\<rparr>))"

section \<open>Building statements\<close>

text \<open>
  Modelled from the spec: \<^verbatim>\<open>keyOrder\<close>, the fixed ordered list of identity fields
  (username, environment, name, version, region, hostname, id), declared elsewhere in
  package kontrol.
\<close>

definition keyOrder :: "string list" where
  "keyOrder =
     [''username'', ''environment'', ''name'', ''version'', ''region'', ''hostname'', ''id'']"

text \<open>
  Modelled from the spec: \<^verbatim>\<open>KontrolQuery.Fields\<close> of package protocol, the map from
  each field's key to the field's value.
\<close>

definition Fields :: "KontrolQuery \<Rightarrow> (string \<rightharpoonup> string)" where
  "Fields q =
     [''username'' \<mapsto> KontrolQuery.Username q,
      ''environment'' \<mapsto> KontrolQuery.Environment q,
      ''name'' \<mapsto> KontrolQuery.Name q,
      ''version'' \<mapsto> KontrolQuery.Version q,
      ''region'' \<mapsto> KontrolQuery.Region q,
      ''hostname'' \<mapsto> KontrolQuery.Hostname q,
      ''id'' \<mapsto> KontrolQuery.ID q]"

text \<open>
  Modelled from the spec: \<^verbatim>\<open>Kite.Values\<close> of package protocol, the identity fields in
  their defined order.
\<close>

definition Values :: "Kite \<Rightarrow> string list" where
  "Values k =
     [Kite.Username k, Kite.Environment k, Kite.Name k, Kite.Version k, Kite.Region k,
      Kite.Hostname k, Kite.ID k]"

text \<open>
  squirrel's \<^verbatim>\<open>ToSql\<close> on the two builders: a select needs a result column, an insert
  a table and values. A rendered statement is kept in its structured form.
\<close>

fun ToSql :: "statement \<Rightarrow> error + statement" where
  "ToSql (Select cols tab wh) =
     (if length cols = 0
      then Inl (BuilderError ''select statements must have at least one result column'')
      else Inr (Select cols tab wh))"
| "ToSql (Insert tab cols vals) =
     (if length tab = 0 then Inl (BuilderError ''insert statements must specify a table'')
      else if length vals = 0
      then Inl (BuilderError ''insert statements must have at least one set of values'')
      else Inr (Insert tab cols vals))"
| "ToSql (UpdateKite u i) = Inr (UpdateKite u i)"
| "ToSql (DeleteKite i) = Inr (DeleteKite i)"
| "ToSql (CleanOldRows n) = Inr (CleanOldRows n)"

text \<open>
  The loop of \<^verbatim>\<open>selectQuery\<close> over the keys: an empty value is passed over with
  \<^verbatim>\<open>continue\<close>, a read of a missing map key gives the empty string, and the key
  \<^verbatim>\<open>name\<close> is stored in column \<^verbatim>\<open>kitename\<close>.
\<close>

fun andQuery_loop :: "(string \<rightharpoonup> string) \<Rightarrow> string list \<Rightarrow> (string \<times> string) list \<Rightarrow> (string \<times> string) list" where
  "andQuery_loop fs [] andQuery = andQuery"
| "andQuery_loop fs (key # keys) andQuery =
     (let v = (case fs key of None \<Rightarrow> [] | Some x \<Rightarrow> x) in
      if v = [] then andQuery_loop fs keys andQuery
      else andQuery_loop fs keys
             (andQuery @ [(if key = ''name'' then ''kitename'' else key, v)]))"

definition selectQuery :: "KontrolQuery \<Rightarrow> error + statement" where
  "selectQuery query =
     (let andQuery = andQuery_loop (Fields query) keyOrder [] in
      if length andQuery = 0 then Inl (ErrorsNew ''all query fields are empty'')
      else ToSql (Select [''*''] ''kite'' andQuery))"

definition insertQuery :: "Kite \<Rightarrow> string \<Rightarrow> error + statement" where
  "insertQuery kiteProt u =
     ToSql (Insert ''kite''
              [''username'', ''environment'', ''kitename'', ''version'', ''region'',
               ''hostname'', ''id'', ''url'']
              (Values kiteProt @ [u]))"

section \<open>Registration primitives\<close>

text \<open>
  \<^verbatim>\<open>url.Parse\<close> of \<^verbatim>\<open>net/url\<close> is a parameter of the three registration functions: it
  gives \<open>Some err\<close> for a string it rejects and \<open>None\<close> for one it accepts. The store's
  clock at the time of the call is the parameter \<open>now\<close>.
\<close>

text \<open>
  The statements of \<^verbatim>\<open>Upsert\<close> between the \<^verbatim>\<open>defer\<close> and the \<^verbatim>\<open>return\<close>: the value
  each \<^verbatim>\<open>return\<close> assigns to the named result \<^verbatim>\<open>err\<close>, with the transaction and the
  state at that point.
\<close>

definition Upsert_body :: "time \<Rightarrow> Kite \<Rightarrow> RegisterValue \<Rightarrow> row list \<Rightarrow> Postgres \<Rightarrow> error option \<times> row list \<times> Postgres" where
  "Upsert_body now kiteProt val tx p =
     (case Tx_Exec now (UpdateKite (RegisterValue.URL val) (Kite.ID kiteProt)) tx p of
        (Inl err, tx1, p1) \<Rightarrow> (Some err, tx1, p1)
      | (Inr res, tx1, p1) \<Rightarrow>
          (case RowsAffected res p1 of
             ((rowAffected, Some err), p2) \<Rightarrow> (Some err, tx1, p2)
           | ((rowAffected, None), p2) \<Rightarrow>
               if rowAffected \<noteq> 0 then (None, tx1, p2)
               else
                 (case insertQuery kiteProt (RegisterValue.URL val) of
                    Inl err \<Rightarrow> (Some err, tx1, p2)
                  | Inr insertSQL \<Rightarrow>
                      (case Tx_Exec now insertSQL tx1 p2 of
                         (Inl err, tx2, p3) \<Rightarrow> (Some err, tx2, p3)
                       | (Inr r, tx2, p3) \<Rightarrow> (None, tx2, p3)))))"

text \<open>
  \<^verbatim>\<open>Upsert\<close>. The deferred function runs after the body has set \<^verbatim>\<open>err\<close> and assigns
  \<^verbatim>\<open>err\<close> again: the result of \<^verbatim>\<open>tx.Rollback()\<close> when \<^verbatim>\<open>err\<close> is not nil, that of
  \<^verbatim>\<open>tx.Commit()\<close> otherwise. What the caller receives is that last assignment.
\<close>

definition Upsert :: "(string \<Rightarrow> error option) \<Rightarrow> time \<Rightarrow> Kite \<Rightarrow> RegisterValue \<Rightarrow> Postgres \<Rightarrow> error option \<times> Postgres" where
  "Upsert url_Parse now kiteProt val p =
     (case url_Parse (RegisterValue.URL val) of
        Some err \<Rightarrow> (Some err, p)
      | None \<Rightarrow>
          (case DB_Begin p of
             (Inl err, p1) \<Rightarrow> (Some err, p1)
           | (Inr tx, p1) \<Rightarrow>
               (case Upsert_body now kiteProt val tx p1 of
                  (err, tx', p2) \<Rightarrow>
                    if err \<noteq> None then Tx_Rollback tx' p2 else Tx_Commit tx' p2)))"

definition Add :: "(string \<Rightarrow> error option) \<Rightarrow> time \<Rightarrow> Kite \<Rightarrow> RegisterValue \<Rightarrow> Postgres \<Rightarrow> error option \<times> Postgres" where
  "Add url_Parse now kiteProt val p =
     (case url_Parse (RegisterValue.URL val) of
        Some err \<Rightarrow> (Some err, p)
      | None \<Rightarrow>
          (case insertQuery kiteProt (RegisterValue.URL val) of
             Inl err \<Rightarrow> (Some err, p)
           | Inr sqlQuery \<Rightarrow>
               (case DB_Exec now sqlQuery p of
                  (Inl err, p1) \<Rightarrow> (Some err, p1)
                | (Inr r, p1) \<Rightarrow> (None, p1))))"

definition Update :: "(string \<Rightarrow> error option) \<Rightarrow> time \<Rightarrow> Kite \<Rightarrow> RegisterValue \<Rightarrow> Postgres \<Rightarrow> error option \<times> Postgres" where
  "Update url_Parse now kiteProt val p =
     (case url_Parse (RegisterValue.URL val) of
        Some err \<Rightarrow> (Some err, p)
      | None \<Rightarrow>
          (case DB_Exec now (UpdateKite (RegisterValue.URL val) (Kite.ID kiteProt)) p of
             (Inl err, p1) \<Rightarrow> (Some err, p1)
           | (Inr r, p1) \<Rightarrow> (None, p1)))"

definition Delete :: "time \<Rightarrow> Kite \<Rightarrow> Postgres \<Rightarrow> error option \<times> Postgres" where
  "Delete now kiteProt p =
     (case DB_Exec now (DeleteKite (Kite.ID kiteProt)) p of
        (Inl err, p1) \<Rightarrow> (Some err, p1)
      | (Inr r, p1) \<Rightarrow> (None, p1))"

section \<open>Expiration sweeper\<close>

text \<open>
  \<^verbatim>\<open>CleanExpiredRows\<close>: the statement's argument is \<^verbatim>\<open>int64(expire/time.Second)\<close>, Go's
  integer division, which truncates towards zero (\<open>sdiv\<close>).
\<close>

definition CleanExpiredRows :: "time \<Rightarrow> Duration \<Rightarrow> Postgres \<Rightarrow> (int \<times> error option) \<times> Postgres" where
  "CleanExpiredRows now expire p =
     (case DB_Exec now (CleanOldRows (expire sdiv 1000000000)) p of
        (Inl err, p1) \<Rightarrow> ((0, Some err), p1)
      | (Inr rows, p1) \<Rightarrow> RowsAffected rows p1)"

text \<open>The closure \<^verbatim>\<open>cleanFunc\<close> of \<^verbatim>\<open>RunCleaner\<close>, run when the store's clock reads \<open>now\<close>.\<close>

definition cleanFunc :: "Duration \<Rightarrow> time \<Rightarrow> Postgres \<Rightarrow> Postgres" where
  "cleanFunc expire now p =
     (case CleanExpiredRows now expire p of
        ((affectedRows, Some err), p1) \<Rightarrow>
          p1\<lparr>Log := Log p1 @ [(WARNING, ''postgres: cleaning old rows failed: %s'', [ArgError err])]\<rparr>
      | ((affectedRows, None), p1) \<Rightarrow>
          if affectedRows \<noteq> 0
          then p1\<lparr>Log := Log p1 @ [(INFO, ''postgres: cleaned up %d rows'', [ArgInt affectedRows])]\<rparr>
          else p1)"

text \<open>
  \<^verbatim>\<open>RunCleaner\<close> never returns: it runs \<^verbatim>\<open>cleanFunc\<close> once and then once for every tick
  of \<^verbatim>\<open>time.Tick(interval)\<close>. The model runs it over the ticks delivered so far, given as
  the store's clock readings \<open>start\<close> (first run) and \<open>ticks\<close> (one per tick).
\<close>

fun RunCleaner_loop :: "Duration \<Rightarrow> time list \<Rightarrow> Postgres \<Rightarrow> Postgres" where
  "RunCleaner_loop expire [] p = p"
| "RunCleaner_loop expire (t # ticks) p = RunCleaner_loop expire ticks (cleanFunc expire t p)"

definition RunCleaner :: "Duration \<Rightarrow> Duration \<Rightarrow> time \<Rightarrow> time list \<Rightarrow> Postgres \<Rightarrow> Postgres" where
  "RunCleaner interval expire start ticks p =
     RunCleaner_loop expire ticks (cleanFunc expire start p)"

section \<open>Queries\<close>

text \<open>
  What \<^verbatim>\<open>Get\<close> takes from outside this file: \<^verbatim>\<open>version.NewVersion\<close> (only whether it
  fails is used) and \<^verbatim>\<open>version.NewConstraint\<close> of \<^verbatim>\<open>go-version\<close>, and the methods
  \<^verbatim>\<open>Filter\<close> and \<^verbatim>\<open>Shuffle\<close> of \<^verbatim>\<open>Kites\<close>. \<open>'c\<close> is the type of parsed constraints.
\<close>

record 'c deps =
  NewVersion :: "string \<Rightarrow> error option"
  NewConstraint :: "string \<Rightarrow> error + 'c"
  Filter :: "'c \<Rightarrow> string \<Rightarrow> Kites \<Rightarrow> Kites"
  Shuffle :: "Kites \<Rightarrow> Kites"

text \<open>\<^verbatim>\<open>strings.TrimRight\<close>: the string without its trailing characters from the cutset.\<close>

definition TrimRight :: "string \<Rightarrow> string \<Rightarrow> string" where
  "TrimRight s cutset = rev (dropWhile (\<lambda>c. c \<in> set cutset) (rev s))"

definition nameQuery :: "KontrolQuery \<Rightarrow> KontrolQuery" where
  "nameQuery query =
     \<lparr>KontrolQuery.Username = KontrolQuery.Username query,
      KontrolQuery.Environment = KontrolQuery.Environment query,
      KontrolQuery.Name = KontrolQuery.Name query,
      KontrolQuery.Version = [],
      KontrolQuery.Region = [],
      KontrolQuery.Hostname = [],
      KontrolQuery.ID = []\<rparr>"

definition keyRest :: "KontrolQuery \<Rightarrow> string" where
  "keyRest query =
     ''/'' @ TrimRight (KontrolQuery.Region query @ ''/'' @ KontrolQuery.Hostname query
                       @ ''/'' @ KontrolQuery.ID query) ''/''"

text \<open>
  The part of \<^verbatim>\<open>Get\<close> before \<^verbatim>\<open>p.DB.Query\<close>: the statement to run and, when the
  version is a constraint (\<^verbatim>\<open>hasVersionConstraint\<close>), the constraint with \<^verbatim>\<open>keyRest\<close>.
\<close>

definition Get_statement :: "'c deps \<Rightarrow> KontrolQuery \<Rightarrow> error + (statement \<times> ('c \<times> string) option)" where
  "Get_statement D query =
     (case selectQuery query of
        Inl err \<Rightarrow> Inl err
      | Inr sqlQuery \<Rightarrow>
          if NewVersion D (KontrolQuery.Version query) \<noteq> None \<and> KontrolQuery.Version query \<noteq> []
          then
            (case NewConstraint D (KontrolQuery.Version query) of
               Inl err \<Rightarrow> Inl err
             | Inr versionConstraint \<Rightarrow>
                 (case selectQuery (nameQuery query) of
                    Inl err \<Rightarrow> Inl err
                  | Inr sqlQuery' \<Rightarrow> Inr (sqlQuery', Some (versionConstraint, keyRest query))))
          else Inr (sqlQuery, None))"

definition kite_of_row :: "row \<Rightarrow> KiteWithToken" where
  "kite_of_row r =
     \<lparr>Kite = \<lparr>Kite.Username = username r, Kite.Environment = environment r,
              Kite.Name = kitename r, Kite.Version = version r, Kite.Region = region r,
              Kite.Hostname = hostname r, Kite.ID = id_col r\<rparr>,
      URL = url r\<rparr>"

text \<open>
  The loop over \<^verbatim>\<open>rows.Next()\<close>: every row is scanned and appended in the order the
  store delivers them; a failure of \<^verbatim>\<open>rows.Scan\<close> or \<^verbatim>\<open>rows.Err()\<close> is one outcome of the
  store and discards what was read.
\<close>

definition scan_rows :: "row list \<Rightarrow> Postgres \<Rightarrow> (error + Kites) \<times> Postgres" where
  "scan_rows rows p =
     (case driver_outcome p of
        (Some err, p1) \<Rightarrow> (Inl err, p1)
      | (None, p1) \<Rightarrow> (Inr (map kite_of_row rows), p1))"

definition Get :: "'c deps \<Rightarrow> KontrolQuery \<Rightarrow> Postgres \<Rightarrow> (error + Kites) \<times> Postgres" where
  "Get D query p =
     (case Get_statement D query of
        Inl err \<Rightarrow> (Inl err, p)
      | Inr (sqlQuery, vc) \<Rightarrow>
          (case DB_Query sqlQuery p of
             (Inl err, p1) \<Rightarrow> (Inl err, p1)
           | (Inr rows, p1) \<Rightarrow>
               (case scan_rows rows p1 of
                  (Inl err, p2) \<Rightarrow> (Inl err, p2)
                | (Inr kites, p2) \<Rightarrow>
                    if length kites = 1 then (Inr kites, p2)
                    else
                      (case vc of
                         Some (versionConstraint, rest) \<Rightarrow>
                           (Inr (Shuffle D (Filter D versionConstraint rest kites)), p2)
                       | None \<Rightarrow> (Inr (Shuffle D kites), p2)))))"

section \<open>Notions used to state the properties\<close>

text \<open>
  The conjunction the specification asks of the query builder: one equality per
  non-empty field, in the fixed order of the fields, with \<^verbatim>\<open>name\<close> stored as
  \<^verbatim>\<open>kitename\<close>.
\<close>

definition equality_clauses :: "KontrolQuery \<Rightarrow> (string \<times> string) list" where
  "equality_clauses q =
     filter (\<lambda>cv. snd cv \<noteq> [])
       [(''username'', KontrolQuery.Username q),
        (''environment'', KontrolQuery.Environment q),
        (''kitename'', KontrolQuery.Name q),
        (''version'', KontrolQuery.Version q),
        (''region'', KontrolQuery.Region q),
        (''hostname'', KontrolQuery.Hostname q),
        (''id'', KontrolQuery.ID q)]"

text \<open>The same conjunction over username, environment and name only.\<close>

definition name_clauses :: "KontrolQuery \<Rightarrow> (string \<times> string) list" where
  "name_clauses q =
     filter (\<lambda>cv. snd cv \<noteq> [])
       [(''username'', KontrolQuery.Username q),
        (''environment'', KontrolQuery.Environment q),
        (''kitename'', KontrolQuery.Name q)]"

text \<open>The outcome the store gives to the next call made to it.\<close>

definition next_outcome :: "Postgres \<Rightarrow> error option" where
  "next_outcome p = (case faults p of [] \<Rightarrow> None | f # fs \<Rightarrow> f)"

text \<open>The store carries out the next \<open>n\<close> calls made to it.\<close>

definition carried_out :: "nat \<Rightarrow> Postgres \<Rightarrow> bool" where
  "carried_out n p = list_all (\<lambda>f. f = None) (take n (faults p))"

text \<open>
  Row \<open>r'\<close> is row \<open>r\<close> after a refresh of the row with id \<open>i\<close>: the identity columns
  and \<^verbatim>\<open>created_at\<close> are those of \<open>r\<close>, and a row with another id is \<open>r\<close> itself.
\<close>

definition only_refreshed :: "string \<Rightarrow> row \<Rightarrow> row \<Rightarrow> bool" where
  "only_refreshed i r r' =
     (username r' = username r \<and> environment r' = environment r \<and> kitename r' = kitename r
      \<and> version r' = version r \<and> region r' = region r \<and> hostname r' = hostname r
      \<and> id_col r' = id_col r \<and> created_at r' = created_at r
      \<and> (if id_col r = i then True else r' = r))"

text \<open>
  The specification asks for a well-formed absolute URL. An absolute URL begins with a
  scheme: a letter, then letters, digits, \<^verbatim>\<open>+\<close>, \<^verbatim>\<open>-\<close> or \<^verbatim>\<open>.\<close>, up to a colon.
\<close>

definition letter :: "char \<Rightarrow> bool" where
  "letter c = (c \<in> set ''abcdefghijklmnopqrstuvwxyzABCDEFGHIJKLMNOPQRSTUVWXYZ'')"

definition scheme_char :: "char \<Rightarrow> bool" where
  "scheme_char c = (letter c \<or> c \<in> set ''0123456789+-.'')"

definition has_scheme :: "string \<Rightarrow> bool" where
  "has_scheme u =
     (case u of
        [] \<Rightarrow> False
      | c # cs \<Rightarrow>
          letter c \<and> (case dropWhile scheme_char cs of [] \<Rightarrow> False | x # rest \<Rightarrow> x = CHR '':''))"

section \<open>Sample data\<close>

definition alice_kite :: Kite where
  "alice_kite =
     \<lparr>Kite.Username = ''alice'', Environment = ''prod'', Name = ''mathworker'',
      Version = ''1.0.0'', Region = ''eu'', Hostname = ''h1'', ID = ''7''\<rparr>"

definition alice_row :: row where
  "alice_row =
     \<lparr>username = ''alice'', environment = ''prod'', kitename = ''mathworker'',
      version = ''1.0.0'', region = ''eu'', hostname = ''h1'', id_col = ''7'',
      url = ''http://h1:3636/kite'', created_at = 50, updated_at = 60\<rparr>"

definition bob_row :: row where
  "bob_row =
     \<lparr>username = ''bob'', environment = ''prod'', kitename = ''mathworker'',
      version = ''2.0.0'', region = ''us'', hostname = ''h2'', id_col = ''8'',
      url = ''http://h2:3636/kite'', created_at = 55, updated_at = 70\<rparr>"

text \<open>
  A stand-in for \<^verbatim>\<open>url.Parse\<close> that agrees with \<^verbatim>\<open>net/url\<close> on the strings used in the
  instances: \<^verbatim>\<open>%zz\<close> is rejected for its escape; a string without a scheme, such as
  \<^verbatim>\<open>not a url\<close>, is read as a relative path and accepted.
\<close>

definition sample_url_Parse :: "string \<Rightarrow> error option" where
  "sample_url_Parse u = (if u = ''%zz'' then Some (UrlError ''invalid URL escape'') else None)"

definition two_rows :: Postgres where
  "two_rows = \<lparr>kite = [alice_row, bob_row], faults = [], trace = [], Log = []\<rparr>"

text \<open>
  A stand-in for the version library and the two methods of \<^verbatim>\<open>Kites\<close>: two strings are
  not exact versions, one of them is not a constraint either, the filter keeps no kite
  and the shuffle reverses the list.
\<close>

definition sample_deps :: "string deps" where
  "sample_deps =
     \<lparr>NewVersion = (\<lambda>s. if s = ''>= 2.0.0'' \<or> s = ''>> 2''
                          then Some (VersionError ''Malformed version'') else None),
      NewConstraint = (\<lambda>s. if s = ''>> 2''
                             then Inl (VersionError ''Malformed constraint'') else Inr s),
      Filter = (\<lambda>c rest ks. []),
      Shuffle = rev\<rparr>"

definition alice_query :: "string \<Rightarrow> KontrolQuery" where
  "alice_query v =
     \<lparr>KontrolQuery.Username = ''alice'', Environment = [], Name = [], Version = v,
      Region = ''eu'', Hostname = [], ID = []\<rparr>"

definition region_query :: "string \<Rightarrow> KontrolQuery" where
  "region_query v =
     \<lparr>KontrolQuery.Username = [], Environment = [], Name = [], Version = v,
      Region = ''eu'', Hostname = [], ID = []\<rparr>"

text \<open>At clock reading 100 s: one row last updated 21 s ago, one 19 s ago.\<close>

definition sweep_rows :: Postgres where
  "sweep_rows =
     \<lparr>kite = [alice_row\<lparr>updated_at := 79000000000\<rparr>, bob_row\<lparr>updated_at := 81000000000\<rparr>],
      faults = [], trace = [], Log = []\<rparr>"

text \<open>At clock reading 100 s: one row last updated 1.5 s ago, one 0.5 s ago.\<close>

definition recent_rows :: Postgres where
  "recent_rows =
     \<lparr>kite = [alice_row\<lparr>updated_at := 98500000000\<rparr>, bob_row\<lparr>updated_at := 99500000000\<rparr>],
      faults = [], trace = [], Log = []\<rparr>"

text \<open>A store that fails the next call made to it.\<close>

definition failing_store :: Postgres where
  "failing_store =
     \<lparr>kite = [alice_row\<lparr>updated_at := 79000000000\<rparr>],
      faults = [Some (DriverError ''connection reset'')], trace = [], Log = []\<rparr>"

section \<open>The store, call by call\<close>

lemma driver_outcome_eq:
  "driver_outcome p = (next_outcome p, p\<lparr>faults := tl (faults p)\<rparr>)"
  by (cases "faults p") (simp_all add: driver_outcome_def next_outcome_def)

lemma carried_out_Suc:
  "carried_out (Suc n) p \<longleftrightarrow> next_outcome p = None \<and> carried_out n (p\<lparr>faults := tl (faults p)\<rparr>)"
  by (cases "faults p") (simp_all add: carried_out_def next_outcome_def)

lemma carried_out_0 [simp]: "carried_out 0 p"
  by (simp add: carried_out_def)

lemma carried_out_simps [simp]:
  "carried_out n (p\<lparr>trace := tr\<rparr>) = carried_out n p"
  "carried_out n (p\<lparr>kite := t\<rparr>) = carried_out n p"
  "carried_out n (p\<lparr>Log := l\<rparr>) = carried_out n p"
  "next_outcome (p\<lparr>trace := tr\<rparr>) = next_outcome p"
  "next_outcome (p\<lparr>kite := t\<rparr>) = next_outcome p"
  "next_outcome (p\<lparr>Log := l\<rparr>) = next_outcome p"
  by (simp_all add: carried_out_def next_outcome_def)

lemma carried_out_1: "carried_out 1 p \<longleftrightarrow> next_outcome p = None"
proof -
  have "carried_out (Suc 0) p \<longleftrightarrow> next_outcome p = None"
    by (simp add: carried_out_Suc)
  then show ?thesis by simp
qed

lemma carried_out_2:
  "carried_out 2 p \<longleftrightarrow>
     next_outcome p = None \<and> next_outcome (p\<lparr>faults := tl (faults p)\<rparr>) = None"
proof -
  have "carried_out (Suc (Suc 0)) p \<longleftrightarrow>
     next_outcome p = None \<and> next_outcome (p\<lparr>faults := tl (faults p)\<rparr>) = None"
    by (simp add: carried_out_Suc)
  then show ?thesis by (simp add: numeral_2_eq_2)
qed

lemma carried_out_2_1: "carried_out 2 p \<Longrightarrow> carried_out 1 p"
  unfolding carried_out_2 carried_out_1 by simp

lemma DB_Exec_eq:
  "DB_Exec now st p =
     (case next_outcome p of
        Some e \<Rightarrow> (Inl e, p\<lparr>faults := tl (faults p), trace := trace p @ [DBExec st]\<rparr>)
      | None \<Rightarrow>
          (case run_exec now st (kite p) of
             Inl e \<Rightarrow> (Inl e, p\<lparr>faults := tl (faults p), trace := trace p @ [DBExec st]\<rparr>)
           | Inr (t', n) \<Rightarrow>
               (Inr n, p\<lparr>kite := t', faults := tl (faults p), trace := trace p @ [DBExec st]\<rparr>)))"
  by (simp add: DB_Exec_def driver_outcome_eq record_call_def split: option.splits sum.splits)

lemma Tx_Exec_eq:
  "Tx_Exec now st tx p =
     (case next_outcome p of
        Some e \<Rightarrow> (Inl e, tx, p\<lparr>faults := tl (faults p), trace := trace p @ [TxExec st]\<rparr>)
      | None \<Rightarrow>
          (case run_exec now st tx of
             Inl e \<Rightarrow> (Inl e, tx, p\<lparr>faults := tl (faults p), trace := trace p @ [TxExec st]\<rparr>)
           | Inr (tx', n) \<Rightarrow>
               (Inr n, tx', p\<lparr>faults := tl (faults p), trace := trace p @ [TxExec st]\<rparr>)))"
  by (simp add: Tx_Exec_def driver_outcome_eq record_call_def split: option.splits sum.splits)

lemma RowsAffected_eq:
  "RowsAffected res p =
     (case next_outcome p of
        Some e \<Rightarrow> ((0, Some e), p\<lparr>faults := tl (faults p)\<rparr>)
      | None \<Rightarrow> ((res, None), p\<lparr>faults := tl (faults p)\<rparr>))"
  by (simp add: RowsAffected_def driver_outcome_eq split: option.splits)

lemma DB_Begin_eq:
  "DB_Begin p =
     (case next_outcome p of
        Some e \<Rightarrow> (Inl e, p\<lparr>faults := tl (faults p), trace := trace p @ [DBBegin]\<rparr>)
      | None \<Rightarrow> (Inr (kite p), p\<lparr>faults := tl (faults p), trace := trace p @ [DBBegin]\<rparr>))"
  by (simp add: DB_Begin_def driver_outcome_eq record_call_def split: option.splits)

lemma Tx_Rollback_eq:
  "Tx_Rollback tx p =
     (next_outcome p, p\<lparr>faults := tl (faults p), trace := trace p @ [TxRollback]\<rparr>)"
  by (simp add: Tx_Rollback_def driver_outcome_eq record_call_def)

lemma Tx_Commit_eq:
  "Tx_Commit tx p =
     (case next_outcome p of
        Some e \<Rightarrow> (Some e, p\<lparr>faults := tl (faults p), trace := trace p @ [TxCommit]\<rparr>)
      | None \<Rightarrow> (None, p\<lparr>kite := tx, faults := tl (faults p), trace := trace p @ [TxCommit]\<rparr>))"
  by (simp add: Tx_Commit_def driver_outcome_eq record_call_def split: option.splits)

lemma DB_Query_eq:
  "DB_Query st p =
     (case next_outcome p of
        Some e \<Rightarrow> (Inl e, p\<lparr>faults := tl (faults p), trace := trace p @ [DBQuery st]\<rparr>)
      | None \<Rightarrow>
          (case run_query st (kite p) of
             Inl e \<Rightarrow> (Inl e, p\<lparr>faults := tl (faults p), trace := trace p @ [DBQuery st]\<rparr>)
           | Inr rs \<Rightarrow> (Inr rs, p\<lparr>faults := tl (faults p), trace := trace p @ [DBQuery st]\<rparr>)))"
  by (simp add: DB_Query_def driver_outcome_eq record_call_def split: option.splits sum.splits)

lemma scan_rows_eq:
  "scan_rows rows p =
     (case next_outcome p of
        Some e \<Rightarrow> (Inl e, p\<lparr>faults := tl (faults p)\<rparr>)
      | None \<Rightarrow> (Inr (map kite_of_row rows), p\<lparr>faults := tl (faults p)\<rparr>))"
  by (simp add: scan_rows_def driver_outcome_eq split: option.splits)

lemma map_refresh_absent:
  "filter (\<lambda>r. id_col r = i) t = [] \<Longrightarrow>
     map (\<lambda>r. if id_col r = i then f r else r) t = t"
  by (induction t) (simp_all split: if_splits)

section \<open>The query builder\<close>

lemma andQuery_loop_eq:
  "andQuery_loop fs keys acc =
     acc @ filter (\<lambda>cv. snd cv \<noteq> [])
             (map (\<lambda>key. (if key = ''name'' then ''kitename'' else key,
                           case fs key of None \<Rightarrow> [] | Some x \<Rightarrow> x)) keys)"
  by (induction keys arbitrary: acc) (simp_all add: Let_def)

lemma andQuery_clauses: "andQuery_loop (Fields q) keyOrder [] = equality_clauses q"
  unfolding andQuery_loop_eq equality_clauses_def keyOrder_def Fields_def
  by simp

lemma selectQuery_eq:
  "selectQuery q =
     (if equality_clauses q = [] then Inl (ErrorsNew ''all query fields are empty'')
      else Inr (Select [''*''] ''kite'' (equality_clauses q)))"
  by (simp add: selectQuery_def andQuery_clauses Let_def)

lemma clauses_empty_iff:
  "equality_clauses q = [] \<longleftrightarrow>
     KontrolQuery.Username q = [] \<and> KontrolQuery.Environment q = [] \<and> KontrolQuery.Name q = []
     \<and> KontrolQuery.Version q = [] \<and> KontrolQuery.Region q = [] \<and> KontrolQuery.Hostname q = []
     \<and> KontrolQuery.ID q = []"
  by (simp add: equality_clauses_def filter_empty_conv)

lemma name_clauses_eq: "equality_clauses (nameQuery q) = name_clauses q"
  by (simp add: equality_clauses_def nameQuery_def name_clauses_def)

lemma name_clauses_empty_iff:
  "name_clauses q = [] \<longleftrightarrow>
     KontrolQuery.Username q = [] \<and> KontrolQuery.Environment q = [] \<and> KontrolQuery.Name q = []"
  by (simp add: name_clauses_def filter_empty_conv)

lemma name_clauses_columns: "list_all (\<lambda>cv. fst cv \<in> set text_columns) (name_clauses q)"
  by (simp add: name_clauses_def text_columns_def list_all_iff)

text \<open>
  C5. For a query with at least one non-empty field, \<^verbatim>\<open>selectQuery\<close> builds the
  conjunction of one equality clause per non-empty field, in the fixed key order; an
  empty field is passed over and the fields after it still contribute their clauses.
\<close>

theorem selectQuery_skips_empty_fields:
  assumes "KontrolQuery.Username q \<noteq> [] \<or> KontrolQuery.Environment q \<noteq> []
           \<or> KontrolQuery.Name q \<noteq> [] \<or> KontrolQuery.Version q \<noteq> []
           \<or> KontrolQuery.Region q \<noteq> [] \<or> KontrolQuery.Hostname q \<noteq> []
           \<or> KontrolQuery.ID q \<noteq> []"
  shows "selectQuery q = Inr (Select [''*''] ''kite'' (equality_clauses q))"
proof -
  from assms have "equality_clauses q \<noteq> []"
    unfolding clauses_empty_iff by blast
  then show ?thesis
    by (simp add: selectQuery_eq)
qed

text \<open>
  An instance: username and name are set, environment between them is empty, and the id
  after four empty fields still gives its clause.
\<close>

theorem selectQuery_skips_empty_fields_witness:
  "selectQuery \<lparr>KontrolQuery.Username = ''alice'', Environment = [], Name = ''mathworker'',
                Version = [], Region = [], Hostname = [], ID = ''7''\<rparr>
     = Inr (Select [''*''] ''kite''
              [(''username'', ''alice''), (''kitename'', ''mathworker''), (''id'', ''7'')])"
  using selectQuery_skips_empty_fields
    [of "\<lparr>KontrolQuery.Username = ''alice'', Environment = [], Name = ''mathworker'',
          Version = [], Region = [], Hostname = [], ID = ''7''\<rparr>"]
  by (simp add: equality_clauses_def)

text \<open>
  C4. A query in which every identity field is empty is refused before the store is
  touched: \<^verbatim>\<open>selectQuery\<close> returns an error, \<^verbatim>\<open>Get\<close> returns it, and the state (table,
  calls made, pending outcomes) is the one \<^verbatim>\<open>Get\<close> was given.
\<close>

theorem Get_rejects_empty_query:
  assumes "KontrolQuery.Username q = []" and "KontrolQuery.Environment q = []"
    and "KontrolQuery.Name q = []" and "KontrolQuery.Version q = []"
    and "KontrolQuery.Region q = []" and "KontrolQuery.Hostname q = []"
    and "KontrolQuery.ID q = []"
  shows "selectQuery q = Inl (ErrorsNew ''all query fields are empty'')
         \<and> Get D q p = (Inl (ErrorsNew ''all query fields are empty''), p)"
proof -
  from assms have "equality_clauses q = []"
    unfolding clauses_empty_iff by simp
  then have sel: "selectQuery q = Inl (ErrorsNew ''all query fields are empty'')"
    by (simp add: selectQuery_eq)
  then show ?thesis
    by (simp add: Get_def Get_statement_def)
qed

theorem Get_rejects_empty_query_witness:
  "Get sample_deps
       \<lparr>KontrolQuery.Username = [], Environment = [], Name = [], Version = [], Region = [],
        Hostname = [], ID = []\<rparr>
       two_rows
     = (Inl (ErrorsNew ''all query fields are empty''), two_rows)"
  using Get_rejects_empty_query
    [of "\<lparr>KontrolQuery.Username = [], Environment = [], Name = [], Version = [], Region = [],
          Hostname = [], ID = []\<rparr>"
        sample_deps two_rows]
  by simp

section \<open>Registration\<close>

text \<open>
  C2, as the code has it. When \<^verbatim>\<open>url.Parse\<close> rejects the URL of the registration value,
  each of \<^verbatim>\<open>Add\<close>, \<^verbatim>\<open>Upsert\<close> and \<^verbatim>\<open>Update\<close> returns that error and the state is the
  one it was given: no row is written or changed and no call reaches the store.
\<close>

theorem malformed_url_rejected:
  assumes "url_Parse (RegisterValue.URL val) = Some err"
  shows "Add url_Parse now kiteProt val p = (Some err, p)
         \<and> Upsert url_Parse now kiteProt val p = (Some err, p)
         \<and> Update url_Parse now kiteProt val p = (Some err, p)"
  using assms by (simp add: Add_def Upsert_def Update_def)

theorem malformed_url_rejected_witness:
  "Add sample_url_Parse 100 alice_kite \<lparr>RegisterValue.URL = ''%zz''\<rparr> two_rows
     = (Some (UrlError ''invalid URL escape''), two_rows)
   \<and> Upsert sample_url_Parse 100 alice_kite \<lparr>RegisterValue.URL = ''%zz''\<rparr> two_rows
     = (Some (UrlError ''invalid URL escape''), two_rows)
   \<and> Update sample_url_Parse 100 alice_kite \<lparr>RegisterValue.URL = ''%zz''\<rparr> two_rows
     = (Some (UrlError ''invalid URL escape''), two_rows)"
  using malformed_url_rejected
    [of sample_url_Parse "\<lparr>RegisterValue.URL = ''%zz''\<rparr>" "UrlError ''invalid URL escape''"
        100 alice_kite two_rows]
  by (simp add: sample_url_Parse_def)

text \<open>
  C2 as stated does not hold for every malformed URL: the only check is \<^verbatim>\<open>url.Parse\<close>,
  which accepts a string without a scheme. \<^verbatim>\<open>not a url\<close> is not an absolute URL, yet
  \<^verbatim>\<open>Add\<close> inserts a row with it, and \<^verbatim>\<open>Upsert\<close> and \<^verbatim>\<open>Update\<close> store it in the row
  they refresh.
\<close>

theorem malformed_url_stored_counterexample:
  "\<not> has_scheme ''not a url''
   \<and> Add sample_url_Parse 100 alice_kite \<lparr>RegisterValue.URL = ''not a url''\<rparr>
         \<lparr>kite = [bob_row], faults = [], trace = [], Log = []\<rparr>
       = (None,
          \<lparr>kite = [bob_row,
                    alice_row\<lparr>url := ''not a url'', created_at := 100, updated_at := 100\<rparr>],
           faults = [],
           trace = [DBExec (Insert ''kite''
                      [''username'', ''environment'', ''kitename'', ''version'', ''region'',
                       ''hostname'', ''id'', ''url'']
                      [''alice'', ''prod'', ''mathworker'', ''1.0.0'', ''eu'', ''h1'', ''7'',
                       ''not a url''])],
           Log = []\<rparr>)
   \<and> kite (snd (Upsert sample_url_Parse 100 alice_kite \<lparr>RegisterValue.URL = ''not a url''\<rparr>
                   two_rows))
       = [alice_row\<lparr>url := ''not a url'', updated_at := 100\<rparr>, bob_row]
   \<and> kite (snd (Update sample_url_Parse 100 alice_kite \<lparr>RegisterValue.URL = ''not a url''\<rparr>
                   two_rows))
       = [alice_row\<lparr>url := ''not a url'', updated_at := 100\<rparr>, bob_row]"
proof -
  have h: "\<not> has_scheme ''not a url''"
    by (simp add: has_scheme_def letter_def scheme_char_def)
  have a: "Add sample_url_Parse 100 alice_kite \<lparr>RegisterValue.URL = ''not a url''\<rparr>
         \<lparr>kite = [bob_row], faults = [], trace = [], Log = []\<rparr>
       = (None,
          \<lparr>kite = [bob_row,
                    alice_row\<lparr>url := ''not a url'', created_at := 100, updated_at := 100\<rparr>],
           faults = [],
           trace = [DBExec (Insert ''kite''
                      [''username'', ''environment'', ''kitename'', ''version'', ''region'',
                       ''hostname'', ''id'', ''url'']
                      [''alice'', ''prod'', ''mathworker'', ''1.0.0'', ''eu'', ''h1'', ''7'',
                       ''not a url''])],
           Log = []\<rparr>)"
    by (simp add: Add_def sample_url_Parse_def insertQuery_def Values_def DB_Exec_eq
          next_outcome_def insert_row_def text_columns_def value_of_def alice_kite_def
          alice_row_def bob_row_def)
  have u: "kite (snd (Upsert sample_url_Parse 100 alice_kite
                        \<lparr>RegisterValue.URL = ''not a url''\<rparr> two_rows))
       = [alice_row\<lparr>url := ''not a url'', updated_at := 100\<rparr>, bob_row]"
    by (simp add: Upsert_def Upsert_body_def sample_url_Parse_def DB_Begin_eq Tx_Exec_eq
          RowsAffected_eq Tx_Commit_eq next_outcome_def two_rows_def alice_kite_def
          alice_row_def bob_row_def)
  have d: "kite (snd (Update sample_url_Parse 100 alice_kite
                        \<lparr>RegisterValue.URL = ''not a url''\<rparr> two_rows))
       = [alice_row\<lparr>url := ''not a url'', updated_at := 100\<rparr>, bob_row]"
    by (simp add: Update_def sample_url_Parse_def DB_Exec_eq next_outcome_def two_rows_def
          alice_kite_def alice_row_def bob_row_def)
  show ?thesis
    using h a u d by simp
qed

text \<open>
  C8. \<^verbatim>\<open>Update\<close> with a URL that parses, for an id that no stored row has, on a store
  that carries out the statement: no error is returned, the table and the log are as
  before, and the one call made is the \<^verbatim>\<open>UPDATE\<close>; nothing is inserted.
\<close>

theorem Update_absent_row_no_effect:
  assumes "url_Parse (RegisterValue.URL val) = None"
    and "filter (\<lambda>r. id_col r = Kite.ID kiteProt) (kite p) = []"
    and "carried_out 1 p"
  shows "fst (Update url_Parse now kiteProt val p) = None
         \<and> kite (snd (Update url_Parse now kiteProt val p)) = kite p
         \<and> trace (snd (Update url_Parse now kiteProt val p))
             = trace p @ [DBExec (UpdateKite (RegisterValue.URL val) (Kite.ID kiteProt))]
         \<and> Log (snd (Update url_Parse now kiteProt val p)) = Log p"
proof -
  from assms(3) have "next_outcome p = None"
    by (simp only: carried_out_1)
  then show ?thesis
    using assms(1,2) by (simp add: Update_def DB_Exec_eq map_refresh_absent)
qed

theorem Update_absent_row_no_effect_witness:
  "fst (Update (\<lambda>u. None) 100 alice_kite \<lparr>RegisterValue.URL = ''http://h1:4000/kite''\<rparr>
          \<lparr>kite = [bob_row], faults = [], trace = [], Log = []\<rparr>) = None
   \<and> kite (snd (Update (\<lambda>u. None) 100 alice_kite \<lparr>RegisterValue.URL = ''http://h1:4000/kite''\<rparr>
          \<lparr>kite = [bob_row], faults = [], trace = [], Log = []\<rparr>)) = [bob_row]
   \<and> trace (snd (Update (\<lambda>u. None) 100 alice_kite \<lparr>RegisterValue.URL = ''http://h1:4000/kite''\<rparr>
          \<lparr>kite = [bob_row], faults = [], trace = [], Log = []\<rparr>))
       = [DBExec (UpdateKite ''http://h1:4000/kite'' ''7'')]"
  using Update_absent_row_no_effect
    [of "\<lambda>u. None" "\<lparr>RegisterValue.URL = ''http://h1:4000/kite''\<rparr>" alice_kite
        "\<lparr>kite = [bob_row], faults = [], trace = [], Log = []\<rparr>" 100]
  by (simp add: alice_kite_def bob_row_def carried_out_def)

subsection \<open>What a refresh changes\<close>

lemma Upsert_body_kite: "kite (snd (snd (Upsert_body now k val tx p))) = kite p"
  by (simp add: Upsert_body_def Tx_Exec_eq RowsAffected_eq
      split: option.splits sum.splits prod.splits)

lemma Upsert_body_existing:
  assumes "filter (\<lambda>r. id_col r = Kite.ID k) tx \<noteq> []"
  shows "fst (snd (Upsert_body now k val tx p)) = tx
         \<or> fst (snd (Upsert_body now k val tx p))
             = map (\<lambda>r. if id_col r = Kite.ID k
                         then r\<lparr>url := RegisterValue.URL val, updated_at := now\<rparr> else r) tx"
  using assms
  by (simp add: Upsert_body_def Tx_Exec_eq RowsAffected_eq
      split: option.splits sum.splits prod.splits)

lemma Upsert_existing_table:
  assumes "filter (\<lambda>r. id_col r = Kite.ID k) (kite p) \<noteq> []"
  shows "kite (snd (Upsert url_Parse now k val p)) = kite p
         \<or> kite (snd (Upsert url_Parse now k val p))
             = map (\<lambda>r. if id_col r = Kite.ID k
                         then r\<lparr>url := RegisterValue.URL val, updated_at := now\<rparr> else r) (kite p)"
proof (cases "url_Parse (RegisterValue.URL val)")
  case (Some a)
  then show ?thesis by (simp add: Upsert_def)
next
  case None
  show ?thesis
  proof (cases "next_outcome p")
    case (Some a)
    with None show ?thesis by (simp add: Upsert_def DB_Begin_eq)
  next
    case n: None
    let ?p1 = "p\<lparr>faults := tl (faults p), trace := trace p @ [DBBegin]\<rparr>"
    obtain err tx' p2 where b: "Upsert_body now k val (kite p) ?p1 = (err, tx', p2)"
      by (cases "Upsert_body now k val (kite p) ?p1") auto
    have k2: "kite p2 = kite p"
      using Upsert_body_kite [of now k val "kite p" ?p1] b by simp
    have tx: "tx' = kite p \<or> tx' = map (\<lambda>r. if id_col r = Kite.ID k
                         then r\<lparr>url := RegisterValue.URL val, updated_at := now\<rparr> else r) (kite p)"
      using Upsert_body_existing [OF assms, of now val ?p1] b by simp
    show ?thesis
      using None n b k2 tx
      by (auto simp: Upsert_def DB_Begin_eq Tx_Rollback_eq Tx_Commit_eq split: option.splits)
  qed
qed

lemma only_refreshed_refl: "list_all2 (only_refreshed i) t t"
  by (simp add: list_all2_same only_refreshed_def)

lemma only_refreshed_map:
  "list_all2 (only_refreshed i) t
     (map (\<lambda>r. if id_col r = i then r\<lparr>url := u, updated_at := now\<rparr> else r) t)"
  by (simp add: list_all2_map2 list_all2_same only_refreshed_def)

lemma Update_table:
  assumes "fst (Update url_Parse now k val p) = None"
  shows "kite (snd (Update url_Parse now k val p))
           = map (\<lambda>r. if id_col r = Kite.ID k
                       then r\<lparr>url := RegisterValue.URL val, updated_at := now\<rparr> else r) (kite p)"
  using assms
  by (simp add: Update_def DB_Exec_eq split: option.splits)

text \<open>
  C9. After \<^verbatim>\<open>Update\<close> has returned without error, and after \<^verbatim>\<open>Upsert\<close> has returned
  without error for an id that a stored row has, the table has the same rows in the same
  places, every row keeps its identity columns and \<^verbatim>\<open>created_at\<close>, and every row with
  another id is unchanged: only \<^verbatim>\<open>url\<close> and \<^verbatim>\<open>updated_at\<close> of the rows with that id can
  differ.
\<close>

theorem refresh_changes_only_url_and_updated_at:
  "(Update url_Parse now k val p = (None, p')
      \<longrightarrow> list_all2 (only_refreshed (Kite.ID k)) (kite p) (kite p'))
   \<and> (filter (\<lambda>r. id_col r = Kite.ID k) (kite p) \<noteq> []
        \<and> Upsert url_Parse now k val p = (None, p')
      \<longrightarrow> list_all2 (only_refreshed (Kite.ID k)) (kite p) (kite p'))"
proof (intro conjI impI)
  assume u: "Update url_Parse now k val p = (None, p')"
  then have "kite p' = map (\<lambda>r. if id_col r = Kite.ID k
                       then r\<lparr>url := RegisterValue.URL val, updated_at := now\<rparr> else r) (kite p)"
    using Update_table [of url_Parse now k val p] by simp
  then show "list_all2 (only_refreshed (Kite.ID k)) (kite p) (kite p')"
    by (simp add: only_refreshed_map)
next
  assume a: "filter (\<lambda>r. id_col r = Kite.ID k) (kite p) \<noteq> []
        \<and> Upsert url_Parse now k val p = (None, p')"
  then have "kite p' = kite p \<or> kite p' = map (\<lambda>r. if id_col r = Kite.ID k
                       then r\<lparr>url := RegisterValue.URL val, updated_at := now\<rparr> else r) (kite p)"
    using Upsert_existing_table [of k p url_Parse now val] by simp
  then show "list_all2 (only_refreshed (Kite.ID k)) (kite p) (kite p')"
  proof
    assume "kite p' = kite p"
    then show ?thesis by (simp add: only_refreshed_refl)
  next
    assume "kite p' = map (\<lambda>r. if id_col r = Kite.ID k
                       then r\<lparr>url := RegisterValue.URL val, updated_at := now\<rparr> else r) (kite p)"
    then show ?thesis by (simp add: only_refreshed_map)
  qed
qed

text \<open>
  An instance with two stored rows: both functions refresh the row with id 7, whose
  \<^verbatim>\<open>url\<close> and \<^verbatim>\<open>updated_at\<close> change, and leave the row with id 8 as it was.
\<close>

theorem refresh_changes_only_url_and_updated_at_witness:
  "Update (\<lambda>u. None) 100 alice_kite \<lparr>RegisterValue.URL = ''http://h1:4000/kite''\<rparr> two_rows
      = (None, \<lparr>kite = [alice_row\<lparr>url := ''http://h1:4000/kite'', updated_at := 100\<rparr>, bob_row],
                faults = [], trace = [DBExec (UpdateKite ''http://h1:4000/kite'' ''7'')], Log = []\<rparr>)
   \<and> Upsert (\<lambda>u. None) 100 alice_kite \<lparr>RegisterValue.URL = ''http://h1:4000/kite''\<rparr> two_rows
      = (None, \<lparr>kite = [alice_row\<lparr>url := ''http://h1:4000/kite'', updated_at := 100\<rparr>, bob_row],
                faults = [],
                trace = [DBBegin, TxExec (UpdateKite ''http://h1:4000/kite'' ''7''), TxCommit],
                Log = []\<rparr>)
   \<and> list_all2 (only_refreshed ''7'') [alice_row, bob_row]
        [alice_row\<lparr>url := ''http://h1:4000/kite'', updated_at := 100\<rparr>, bob_row]"
proof -
  let ?v = "\<lparr>RegisterValue.URL = ''http://h1:4000/kite''\<rparr>"
  let ?t' = "[alice_row\<lparr>url := ''http://h1:4000/kite'', updated_at := 100\<rparr>, bob_row]"
  let ?p1 = "\<lparr>kite = ?t', faults = [],
              trace = [DBExec (UpdateKite ''http://h1:4000/kite'' ''7'')], Log = []\<rparr>"
  let ?p2 = "\<lparr>kite = ?t', faults = [],
              trace = [DBBegin, TxExec (UpdateKite ''http://h1:4000/kite'' ''7''), TxCommit],
              Log = []\<rparr>"
  have up: "Update (\<lambda>u. None) 100 alice_kite ?v two_rows = (None, ?p1)"
    by (simp add: Update_def DB_Exec_eq next_outcome_def two_rows_def alice_kite_def
          alice_row_def bob_row_def)
  have us: "Upsert (\<lambda>u. None) 100 alice_kite ?v two_rows = (None, ?p2)"
    by (simp add: Upsert_def Upsert_body_def DB_Begin_eq Tx_Exec_eq RowsAffected_eq Tx_Commit_eq
          next_outcome_def two_rows_def alice_kite_def alice_row_def bob_row_def)
  have ex: "filter (\<lambda>r. id_col r = Kite.ID alice_kite) (kite two_rows) \<noteq> []"
    by (simp add: two_rows_def alice_kite_def alice_row_def)
  have k: "kite two_rows = [alice_row, bob_row]" "Kite.ID alice_kite = ''7''"
    by (simp_all add: two_rows_def alice_kite_def)
  from refresh_changes_only_url_and_updated_at [of "\<lambda>u. None" 100 alice_kite ?v two_rows ?p1] up
  have a: "list_all2 (only_refreshed (Kite.ID alice_kite)) (kite two_rows) (kite ?p1)"
    by blast
  from refresh_changes_only_url_and_updated_at [of "\<lambda>u. None" 100 alice_kite ?v two_rows ?p2] us ex
  have b: "list_all2 (only_refreshed (Kite.ID alice_kite)) (kite two_rows) (kite ?p2)"
    by blast
  from a b have "list_all2 (only_refreshed ''7'') [alice_row, bob_row] ?t'"
    by (simp add: k)
  then show ?thesis
    using up us by simp
qed

subsection \<open>A failed step inside the transaction\<close>

text \<open>
  When a statement of the body fails, \<^verbatim>\<open>Upsert\<close> returns what \<^verbatim>\<open>tx.Rollback()\<close>
  returns, and the stored table is the one before the call.
\<close>

lemma Upsert_failed_step:
  assumes "url_Parse (RegisterValue.URL val) = None"
    and "DB_Begin p = (Inr tx, p1)"
    and "Upsert_body now k val tx p1 = (Some e, tx', p2)"
  shows "Upsert url_Parse now k val p = Tx_Rollback tx' p2
         \<and> kite (snd (Upsert url_Parse now k val p)) = kite p"
proof -
  have "kite p1 = kite p"
    using assms(2) by (auto simp: DB_Begin_eq split: option.splits)
  moreover have "kite p2 = kite p1"
    using Upsert_body_kite [of now k val tx p1] assms(3) by simp
  ultimately show ?thesis
    using assms by (simp add: Upsert_def Tx_Rollback_eq)
qed

text \<open>Whenever \<^verbatim>\<open>Upsert\<close> does return an error, the stored table is unchanged.\<close>

lemma Upsert_error_keeps_table:
  assumes "fst (Upsert url_Parse now k val p) = Some e"
  shows "kite (snd (Upsert url_Parse now k val p)) = kite p"
proof (cases "url_Parse (RegisterValue.URL val)")
  case (Some a)
  then show ?thesis by (simp add: Upsert_def)
next
  case None
  show ?thesis
  proof (cases "next_outcome p")
    case (Some a)
    with None show ?thesis by (simp add: Upsert_def DB_Begin_eq)
  next
    case n: None
    let ?p1 = "p\<lparr>faults := tl (faults p), trace := trace p @ [DBBegin]\<rparr>"
    obtain err tx' p2 where b: "Upsert_body now k val (kite p) ?p1 = (err, tx', p2)"
      by (cases "Upsert_body now k val (kite p) ?p1") auto
    have k2: "kite p2 = kite p"
      using Upsert_body_kite [of now k val "kite p" ?p1] b by simp
    show ?thesis
      using None n b k2 assms
      by (auto simp: Upsert_def DB_Begin_eq Tx_Rollback_eq Tx_Commit_eq split: option.splits)
  qed
qed

text \<open>
  C1. The store carries out \<^verbatim>\<open>Begin\<close>, fails the \<^verbatim>\<open>UPDATE\<close> and carries out the
  \<^verbatim>\<open>Rollback\<close>: the transaction is rolled back and the table is unchanged, but the
  error of the \<^verbatim>\<open>UPDATE\<close> does not reach the caller. The deferred function has replaced
  it by the result of \<^verbatim>\<open>tx.Rollback()\<close>, and \<^verbatim>\<open>Upsert\<close> returns nil.
\<close>

theorem Upsert_returns_nil_after_failed_update:
  "Upsert (\<lambda>u. None) 100 alice_kite \<lparr>RegisterValue.URL = ''http://h1:4000/kite''\<rparr>
     \<lparr>kite = [alice_row],
      faults = [None, Some (DriverError ''connection reset''), None],
      trace = [], Log = []\<rparr>
   = (None,
      \<lparr>kite = [alice_row], faults = [],
       trace = [DBBegin, TxExec (UpdateKite ''http://h1:4000/kite'' ''7''), TxRollback],
       Log = []\<rparr>)"
  by (simp add: Upsert_def Upsert_body_def DB_Begin_eq Tx_Exec_eq Tx_Rollback_eq
        next_outcome_def alice_kite_def)

section \<open>Queries\<close>

lemma Get_fetched:
  assumes "Get_statement D q = Inr (st, vc)" and "carried_out 2 p"
    and "run_query st (kite p) = Inr rs"
  shows "fst (Get D q p) =
           Inr (if length rs = 1 then map kite_of_row rs
                else Shuffle D (case vc of None \<Rightarrow> map kite_of_row rs
                                | Some (c, rest) \<Rightarrow> Filter D c rest (map kite_of_row rs)))"
  using assms
  by (simp add: Get_def DB_Query_eq scan_rows_eq carried_out_2 split: option.splits)

lemma sample_statement:
  "Get_statement sample_deps (alice_query ''>= 2.0.0'')
     = Inr (Select [''*''] ''kite'' [(''username'', ''alice'')], Some (''>= 2.0.0'', ''/eu''))"
  by (simp add: Get_statement_def selectQuery_eq equality_clauses_def nameQuery_def keyRest_def
        TrimRight_def sample_deps_def alice_query_def)

lemma sample_fetch:
  "run_query (Select [''*''] ''kite'' [(''username'', ''alice'')]) (kite two_rows) = Inr [alice_row]"
  by (simp add: two_rows_def row_matches_def column_def text_columns_def alice_row_def bob_row_def)

text \<open>
  C6. When the store carries out the fetch and the statement of \<^verbatim>\<open>Get\<close> selects exactly
  one row, \<^verbatim>\<open>Get\<close> returns that row and nothing else: one kite whose identity fields and
  URL are the row's columns, whether or not a version constraint is active and whatever
  \<^verbatim>\<open>Filter\<close> and \<^verbatim>\<open>Shuffle\<close> would do with it. The filter (under a constraint) and the
  shuffle are applied exactly when the number of rows is not one.
\<close>

theorem Get_single_row_fast_path:
  assumes "Get_statement D q = Inr (st, vc)" and "carried_out 2 p"
    and "run_query st (kite p) = Inr rs"
  shows "(\<forall>r. rs = [r] \<longrightarrow>
            fst (Get D q p) =
              Inr [\<lparr>Kite = \<lparr>Kite.Username = username r, Kite.Environment = environment r,
                            Kite.Name = kitename r, Kite.Version = version r,
                            Kite.Region = region r, Kite.Hostname = hostname r,
                            Kite.ID = id_col r\<rparr>,
                    URL = url r\<rparr>])
         \<and> (length rs \<noteq> 1 \<longrightarrow>
              fst (Get D q p) =
                Inr (Shuffle D
                       (case vc of
                          None \<Rightarrow>
                            map (\<lambda>r. \<lparr>Kite = \<lparr>Kite.Username = username r,
                                               Kite.Environment = environment r,
                                               Kite.Name = kitename r, Kite.Version = version r,
                                               Kite.Region = region r, Kite.Hostname = hostname r,
                                               Kite.ID = id_col r\<rparr>,
                                       URL = url r\<rparr>) rs
                        | Some (c, rest) \<Rightarrow>
                            Filter D c rest
                              (map (\<lambda>r. \<lparr>Kite = \<lparr>Kite.Username = username r,
                                                 Kite.Environment = environment r,
                                                 Kite.Name = kitename r, Kite.Version = version r,
                                                 Kite.Region = region r,
                                                 Kite.Hostname = hostname r,
                                                 Kite.ID = id_col r\<rparr>,
                                         URL = url r\<rparr>) rs))))"
proof -
  have k: "kite_of_row = (\<lambda>r. \<lparr>Kite = \<lparr>Kite.Username = username r,
                                         Kite.Environment = environment r,
                                         Kite.Name = kitename r, Kite.Version = version r,
                                         Kite.Region = region r, Kite.Hostname = hostname r,
                                         Kite.ID = id_col r\<rparr>,
                                 URL = url r\<rparr>)"
    by (rule ext) (simp add: kite_of_row_def)
  show ?thesis
    using Get_fetched [OF assms] unfolding k by auto
qed

text \<open>
  An instance: the query asks for a version in \<^verbatim>\<open>>= 2.0.0\<close>, the one fetched row has
  version 1.0.0 and the filter would keep nothing, yet the row is returned, with the
  identity and the URL stored for it.
\<close>

theorem Get_single_row_fast_path_witness:
  "fst (Get sample_deps (alice_query ''>= 2.0.0'') two_rows)
     = Inr [\<lparr>Kite = \<lparr>Kite.Username = ''alice'', Environment = ''prod'', Name = ''mathworker'',
                     Version = ''1.0.0'', Region = ''eu'', Hostname = ''h1'', ID = ''7''\<rparr>,
             URL = ''http://h1:3636/kite''\<rparr>]
   \<and> Filter sample_deps ''>= 2.0.0'' ''/eu''
         [\<lparr>Kite = \<lparr>Kite.Username = ''alice'', Environment = ''prod'', Name = ''mathworker'',
                     Version = ''1.0.0'', Region = ''eu'', Hostname = ''h1'', ID = ''7''\<rparr>,
           URL = ''http://h1:3636/kite''\<rparr>] = []"
proof -
  have c: "carried_out 2 two_rows"
    by (simp add: carried_out_def two_rows_def)
  from Get_single_row_fast_path [OF sample_statement c sample_fetch]
  have "fst (Get sample_deps (alice_query ''>= 2.0.0'') two_rows) =
              Inr [\<lparr>Kite = \<lparr>Kite.Username = username alice_row,
                            Kite.Environment = environment alice_row,
                            Kite.Name = kitename alice_row, Kite.Version = version alice_row,
                            Kite.Region = region alice_row, Kite.Hostname = hostname alice_row,
                            Kite.ID = id_col alice_row\<rparr>,
                    URL = url alice_row\<rparr>]"
    by blast
  then show ?thesis
    by (simp add: alice_row_def sample_deps_def)
qed

lemma Get_statement_constraint:
  assumes "KontrolQuery.Version q \<noteq> []" and "NewVersion D (KontrolQuery.Version q) \<noteq> None"
  shows "Get_statement D q =
           (case NewConstraint D (KontrolQuery.Version q) of
              Inl e \<Rightarrow> Inl e
            | Inr c \<Rightarrow>
                if name_clauses q = [] then Inl (ErrorsNew ''all query fields are empty'')
                else Inr (Select [''*''] ''kite'' (name_clauses q), Some (c, keyRest q)))"
proof -
  from assms(1) have "equality_clauses q \<noteq> []"
    unfolding clauses_empty_iff by simp
  then show ?thesis
    using assms
    by (simp add: Get_statement_def selectQuery_eq name_clauses_eq split: sum.splits)
qed

text \<open>
  C3, as the code has it. For a query whose version is non-empty and not an exact
  version: when the version is not a constraint either, \<^verbatim>\<open>Get\<close> returns that error and
  the state is untouched; otherwise, when username, environment and name are all empty,
  \<^verbatim>\<open>Get\<close> fails with the query error of \<^verbatim>\<open>selectQuery\<close>, and when one of them is
  non-empty the statement is rebuilt from these three fields only and region, hostname
  and id are kept as \<^verbatim>\<open>keyRest\<close>, which the filter receives after the fetch.
\<close>

theorem Get_version_constraint:
  assumes "KontrolQuery.Version q \<noteq> []" and "NewVersion D (KontrolQuery.Version q) \<noteq> None"
  shows "(\<forall>e. NewConstraint D (KontrolQuery.Version q) = Inl e \<longrightarrow> Get D q p = (Inl e, p))
    \<and> (\<forall>c. NewConstraint D (KontrolQuery.Version q) = Inr c \<longrightarrow>
          Get_statement D q =
            (if KontrolQuery.Username q = [] \<and> KontrolQuery.Environment q = []
                \<and> KontrolQuery.Name q = []
             then Inl (ErrorsNew ''all query fields are empty'')
             else Inr (Select [''*''] ''kite'' (name_clauses q),
                       Some (c, ''/'' @ TrimRight (KontrolQuery.Region q @ ''/''
                                   @ KontrolQuery.Hostname q @ ''/'' @ KontrolQuery.ID q) ''/''))))
    \<and> (\<forall>c. NewConstraint D (KontrolQuery.Version q) = Inr c \<and> name_clauses q \<noteq> []
             \<and> carried_out 2 p \<longrightarrow>
          fst (Get D q p) =
            Inr (if length (filter (row_matches (name_clauses q)) (kite p)) = 1
                 then map kite_of_row (filter (row_matches (name_clauses q)) (kite p))
                 else Shuffle D (Filter D c (keyRest q)
                        (map kite_of_row (filter (row_matches (name_clauses q)) (kite p))))))"
proof (intro conjI allI impI)
  fix e assume "NewConstraint D (KontrolQuery.Version q) = Inl e"
  then show "Get D q p = (Inl e, p)"
    using Get_statement_constraint [OF assms] by (simp add: Get_def)
next
  fix c assume "NewConstraint D (KontrolQuery.Version q) = Inr c"
  then show "Get_statement D q =
            (if KontrolQuery.Username q = [] \<and> KontrolQuery.Environment q = []
                \<and> KontrolQuery.Name q = []
             then Inl (ErrorsNew ''all query fields are empty'')
             else Inr (Select [''*''] ''kite'' (name_clauses q),
                       Some (c, ''/'' @ TrimRight (KontrolQuery.Region q @ ''/''
                                   @ KontrolQuery.Hostname q @ ''/'' @ KontrolQuery.ID q) ''/'')))"
    using Get_statement_constraint [OF assms]
    by (simp add: name_clauses_empty_iff keyRest_def)
next
  fix c assume a: "NewConstraint D (KontrolQuery.Version q) = Inr c \<and> name_clauses q \<noteq> []
             \<and> carried_out 2 p"
  let ?st = "Select [''*''] ''kite'' (name_clauses q)"
  have gs: "Get_statement D q = Inr (?st, Some (c, keyRest q))"
    using Get_statement_constraint [OF assms] a by simp
  have rq: "run_query ?st (kite p) = Inr (filter (row_matches (name_clauses q)) (kite p))"
    by (simp add: name_clauses_columns)
  show "fst (Get D q p) =
            Inr (if length (filter (row_matches (name_clauses q)) (kite p)) = 1
                 then map kite_of_row (filter (row_matches (name_clauses q)) (kite p))
                 else Shuffle D (Filter D c (keyRest q)
                        (map kite_of_row (filter (row_matches (name_clauses q)) (kite p)))))"
    using Get_fetched [OF gs _ rq] a by simp
qed

theorem Get_version_constraint_witness:
  "Get sample_deps (alice_query ''>> 2'') two_rows
     = (Inl (VersionError ''Malformed constraint''), two_rows)
   \<and> Get_statement sample_deps (alice_query ''>= 2.0.0'')
     = Inr (Select [''*''] ''kite'' [(''username'', ''alice'')], Some (''>= 2.0.0'', ''/eu''))
   \<and> fst (Get sample_deps (alice_query ''>= 2.0.0'') two_rows) = Inr [kite_of_row alice_row]"
proof -
  let ?q = "alice_query ''>= 2.0.0''"
  have v: "KontrolQuery.Version (alice_query s) = s" for s
    by (simp add: alice_query_def)
  have a: "Get sample_deps (alice_query ''>> 2'') two_rows
     = (Inl (VersionError ''Malformed constraint''), two_rows)"
    using Get_version_constraint [of "alice_query ''>> 2''" sample_deps two_rows]
    by (simp add: v sample_deps_def)
  have h1: "KontrolQuery.Version ?q \<noteq> []"
    by (simp add: v)
  have h2: "NewVersion sample_deps (KontrolQuery.Version ?q) \<noteq> None"
    by (simp add: v sample_deps_def)
  have nc: "NewConstraint sample_deps (KontrolQuery.Version ?q) = Inr ''>= 2.0.0''"
    by (simp add: v sample_deps_def)
  have c: "carried_out 2 two_rows"
    by (simp add: carried_out_def two_rows_def)
  have n: "name_clauses ?q = [(''username'', ''alice'')]"
    by (simp add: name_clauses_def alice_query_def)
  have ne: "name_clauses ?q \<noteq> []"
    by (simp add: n)
  have f: "filter (row_matches [(''username'', ''alice'')]) (kite two_rows) = [alice_row]"
    by (simp add: two_rows_def row_matches_def column_def alice_row_def bob_row_def)
  note T = Get_version_constraint [OF h1 h2, of two_rows]
  from T nc have "Get_statement sample_deps ?q =
            (if KontrolQuery.Username ?q = [] \<and> KontrolQuery.Environment ?q = []
                \<and> KontrolQuery.Name ?q = []
             then Inl (ErrorsNew ''all query fields are empty'')
             else Inr (Select [''*''] ''kite'' (name_clauses ?q),
                       Some (''>= 2.0.0'', ''/'' @ TrimRight (KontrolQuery.Region ?q @ ''/''
                                   @ KontrolQuery.Hostname ?q @ ''/'' @ KontrolQuery.ID ?q) ''/'')))"
    by blast
  then have b1: "Get_statement sample_deps ?q
     = Inr (Select [''*''] ''kite'' [(''username'', ''alice'')], Some (''>= 2.0.0'', ''/eu''))"
    by (simp add: n) (simp add: alice_query_def TrimRight_def)
  from T nc ne c have "fst (Get sample_deps ?q two_rows) =
            Inr (if length (filter (row_matches (name_clauses ?q)) (kite two_rows)) = 1
                 then map kite_of_row (filter (row_matches (name_clauses ?q)) (kite two_rows))
                 else Shuffle sample_deps (Filter sample_deps ''>= 2.0.0'' (keyRest ?q)
                        (map kite_of_row (filter (row_matches (name_clauses ?q)) (kite two_rows)))))"
    by blast
  then have b2: "fst (Get sample_deps ?q two_rows) = Inr [kite_of_row alice_row]"
    by (simp add: n f)
  show ?thesis
    using a b1 b2 by simp
qed

text \<open>
  C3 as stated does not hold when username, environment and name are empty: the version
  parses as a constraint, yet no statement is rebuilt and \<^verbatim>\<open>Get\<close> returns an error
  without a fetch.
\<close>

theorem Get_version_constraint_counterexample:
  "NewVersion sample_deps (KontrolQuery.Version (region_query ''>= 2.0.0'')) \<noteq> None
   \<and> NewConstraint sample_deps (KontrolQuery.Version (region_query ''>= 2.0.0'')) = Inr ''>= 2.0.0''
   \<and> Get sample_deps (region_query ''>= 2.0.0'') two_rows
       = (Inl (ErrorsNew ''all query fields are empty''), two_rows)"
  by (simp add: Get_def Get_statement_def selectQuery_eq equality_clauses_def nameQuery_def
        sample_deps_def region_query_def)

section \<open>The sweeper\<close>

lemma sdiv_nonneg: "0 \<le> d \<Longrightarrow> d sdiv 1000000000 = d div (1000000000::int)"
  by (cases "d = 0") (simp_all add: signed_divide_int_def)

lemma sdiv_whole: "(1000000000::int) dvd d \<Longrightarrow> 1000000000 * (d sdiv 1000000000) = d"
  by (auto simp: signed_divide_int_def sgn_mult abs_mult mult_sgn_abs)

lemma CleanExpiredRows_eq:
  "CleanExpiredRows now expire p =
     (case next_outcome p of
        Some e \<Rightarrow>
          ((0, Some e),
           p\<lparr>faults := tl (faults p),
             trace := trace p @ [DBExec (CleanOldRows (expire sdiv 1000000000))]\<rparr>)
      | None \<Rightarrow>
          RowsAffected
            (int (length (filter (\<lambda>r. updated_at r < now - 1000000000 * (expire sdiv 1000000000))
                            (kite p))))
            (p\<lparr>kite := filter (\<lambda>r. \<not> updated_at r < now - 1000000000 * (expire sdiv 1000000000))
                         (kite p),
               faults := tl (faults p),
               trace := trace p @ [DBExec (CleanOldRows (expire sdiv 1000000000))]\<rparr>))"
  by (simp add: CleanExpiredRows_def DB_Exec_eq split: option.splits)

lemma CleanExpiredRows_trace:
  "trace (snd (CleanExpiredRows now expire p))
     = trace p @ [DBExec (CleanOldRows (expire sdiv 1000000000))]"
  by (simp add: CleanExpiredRows_eq RowsAffected_eq split: option.splits)

lemma CleanExpiredRows_Log: "Log (snd (CleanExpiredRows now expire p)) = Log p"
  by (simp add: CleanExpiredRows_eq RowsAffected_eq split: option.splits)

lemma CleanExpiredRows_kite:
  "carried_out 1 p \<Longrightarrow>
     kite (snd (CleanExpiredRows now expire p))
       = filter (\<lambda>r. \<not> updated_at r < now - 1000000000 * (expire sdiv 1000000000)) (kite p)"
  by (simp add: CleanExpiredRows_eq RowsAffected_eq carried_out_Suc split: option.splits)

lemma CleanExpiredRows_count:
  "carried_out 2 p \<Longrightarrow>
     fst (CleanExpiredRows now expire p)
       = (int (length (filter (\<lambda>r. updated_at r < now - 1000000000 * (expire sdiv 1000000000))
                         (kite p))), None)"
  by (simp add: CleanExpiredRows_eq RowsAffected_eq carried_out_2 next_outcome_def)

lemma cleanFunc_trace:
  "trace (cleanFunc expire now p) = trace p @ [DBExec (CleanOldRows (expire sdiv 1000000000))]"
  using CleanExpiredRows_trace [of now expire p]
  by (cases "CleanExpiredRows now expire p")
     (auto simp: cleanFunc_def split: option.splits)

lemma RunCleaner_loop_trace:
  "trace (RunCleaner_loop expire ticks p)
     = trace p @ replicate (length ticks) (DBExec (CleanOldRows (expire sdiv 1000000000)))"
  by (induction ticks arbitrary: p) (simp_all add: cleanFunc_trace replicate_app_Cons_same)

lemma RunCleaner_trace:
  "trace (RunCleaner interval expire start ticks p)
     = trace p @ replicate (Suc (length ticks)) (DBExec (CleanOldRows (expire sdiv 1000000000)))"
  by (simp add: RunCleaner_def RunCleaner_loop_trace cleanFunc_trace)

lemma cleanFunc_failure:
  "snd (fst (CleanExpiredRows now expire p)) = Some err \<Longrightarrow>
     Log (cleanFunc expire now p)
       = Log p @ [(WARNING, ''postgres: cleaning old rows failed: %s'', [ArgError err])]"
  using CleanExpiredRows_Log [of now expire p]
  by (cases "CleanExpiredRows now expire p") (auto simp: cleanFunc_def)

lemma cleanFunc_nothing_removed:
  "carried_out 2 p \<Longrightarrow>
   filter (\<lambda>r. updated_at r < now - 1000000000 * (expire sdiv 1000000000)) (kite p) = [] \<Longrightarrow>
     Log (cleanFunc expire now p) = Log p"
  using CleanExpiredRows_Log [of now expire p] CleanExpiredRows_count [of p now expire]
  by (cases "CleanExpiredRows now expire p") (auto simp: cleanFunc_def)

lemma cleanFunc_kite:
  "kite (cleanFunc expire now p) = kite (snd (CleanExpiredRows now expire p))"
  by (cases "CleanExpiredRows now expire p") (auto simp: cleanFunc_def split: option.splits)

lemma cleanFunc_removed:
  "carried_out 2 p \<Longrightarrow>
   filter (\<lambda>r. updated_at r < now - 1000000000 * (expire sdiv 1000000000)) (kite p) \<noteq> [] \<Longrightarrow>
     Log (cleanFunc expire now p)
       = Log p @ [(INFO, ''postgres: cleaned up %d rows'',
                   [ArgInt (int (length (filter
                       (\<lambda>r. updated_at r < now - 1000000000 * (expire sdiv 1000000000))
                       (kite p))))])]"
  using CleanExpiredRows_Log [of now expire p] CleanExpiredRows_count [of p now expire]
  by (cases "CleanExpiredRows now expire p") (auto simp: cleanFunc_def)

lemma RunCleaner_loop_foldl:
  "RunCleaner_loop expire ticks p = foldl (\<lambda>s t. cleanFunc expire t s) p ticks"
  by (induction ticks arbitrary: p) simp_all

lemma RunCleaner_foldl:
  "RunCleaner interval expire start ticks p
     = foldl (\<lambda>s t. cleanFunc expire t s) p (start # ticks)"
  by (simp add: RunCleaner_def RunCleaner_loop_foldl)

text \<open>
  C7, as the code has it. One sweeper run on a store that carries it out deletes exactly
  the rows whose \<^verbatim>\<open>updated_at\<close> is older than the current time minus the whole seconds of
  the expiry age; \<^verbatim>\<open>CleanExpiredRows\<close> returns their number and the run reports it in
  an info line of the log. For an expiry age of whole seconds the limit is the current
  time minus the expiry age. A run that removes no row logs nothing, a failed run logs
  a warning, and \<^verbatim>\<open>RunCleaner\<close> is one run at start and one run per tick, each issuing
  the statement whatever the outcomes of the runs before it.
\<close>

theorem sweep_deletes_rows_older_than_whole_seconds:
  "(carried_out 2 p \<longrightarrow>
      fst (CleanExpiredRows now expire p)
        = (int (length (filter (\<lambda>r. updated_at r < now - 1000000000 * (expire sdiv 1000000000))
                          (kite p))), None)
      \<and> kite (snd (CleanExpiredRows now expire p))
        = filter (\<lambda>r. \<not> updated_at r < now - 1000000000 * (expire sdiv 1000000000)) (kite p))
   \<and> (carried_out 2 p \<and> 1000000000 dvd expire \<longrightarrow>
        kite (snd (CleanExpiredRows now expire p))
          = filter (\<lambda>r. \<not> updated_at r < now - expire) (kite p))
   \<and> (carried_out 2 p \<longrightarrow>
        kite (cleanFunc expire now p)
          = filter (\<lambda>r. \<not> updated_at r < now - 1000000000 * (expire sdiv 1000000000)) (kite p))
   \<and> (carried_out 2 p
        \<and> filter (\<lambda>r. updated_at r < now - 1000000000 * (expire sdiv 1000000000)) (kite p) = []
      \<longrightarrow> Log (cleanFunc expire now p) = Log p)
   \<and> (carried_out 2 p
        \<and> filter (\<lambda>r. updated_at r < now - 1000000000 * (expire sdiv 1000000000)) (kite p) \<noteq> []
      \<longrightarrow> Log (cleanFunc expire now p)
            = Log p @ [(INFO, ''postgres: cleaned up %d rows'',
                        [ArgInt (int (length (filter
                            (\<lambda>r. updated_at r < now - 1000000000 * (expire sdiv 1000000000))
                            (kite p))))])])
   \<and> (\<forall>err. snd (fst (CleanExpiredRows now expire p)) = Some err \<longrightarrow>
        Log (cleanFunc expire now p)
          = Log p @ [(WARNING, ''postgres: cleaning old rows failed: %s'', [ArgError err])])
   \<and> trace (RunCleaner interval expire start ticks p)
       = trace p @ replicate (Suc (length ticks)) (DBExec (CleanOldRows (expire sdiv 1000000000)))
   \<and> RunCleaner interval expire start ticks p
       = foldl (\<lambda>s t. cleanFunc expire t s) p (start # ticks)"
proof (intro conjI impI allI)
  assume c: "carried_out 2 p"
  show "fst (CleanExpiredRows now expire p)
        = (int (length (filter (\<lambda>r. updated_at r < now - 1000000000 * (expire sdiv 1000000000))
                          (kite p))), None)"
    using c by (rule CleanExpiredRows_count)
  show "kite (snd (CleanExpiredRows now expire p))
        = filter (\<lambda>r. \<not> updated_at r < now - 1000000000 * (expire sdiv 1000000000)) (kite p)"
    using c by (intro CleanExpiredRows_kite carried_out_2_1)
next
  assume a: "carried_out 2 p \<and> 1000000000 dvd expire"
  then have "1000000000 * (expire sdiv 1000000000) = expire"
    by (simp add: sdiv_whole)
  then show "kite (snd (CleanExpiredRows now expire p))
          = filter (\<lambda>r. \<not> updated_at r < now - expire) (kite p)"
    using a CleanExpiredRows_kite [OF carried_out_2_1, of p now expire] by simp
next
  assume c: "carried_out 2 p"
  show "kite (cleanFunc expire now p)
          = filter (\<lambda>r. \<not> updated_at r < now - 1000000000 * (expire sdiv 1000000000)) (kite p)"
    unfolding cleanFunc_kite using c by (intro CleanExpiredRows_kite carried_out_2_1)
next
  assume "carried_out 2 p
        \<and> filter (\<lambda>r. updated_at r < now - 1000000000 * (expire sdiv 1000000000)) (kite p) = []"
  then show "Log (cleanFunc expire now p) = Log p"
    by (simp add: cleanFunc_nothing_removed)
next
  assume "carried_out 2 p
        \<and> filter (\<lambda>r. updated_at r < now - 1000000000 * (expire sdiv 1000000000)) (kite p) \<noteq> []"
  then show "Log (cleanFunc expire now p)
            = Log p @ [(INFO, ''postgres: cleaned up %d rows'',
                        [ArgInt (int (length (filter
                            (\<lambda>r. updated_at r < now - 1000000000 * (expire sdiv 1000000000))
                            (kite p))))])]"
    by (intro cleanFunc_removed) simp_all
next
  fix err assume "snd (fst (CleanExpiredRows now expire p)) = Some err"
  then show "Log (cleanFunc expire now p)
          = Log p @ [(WARNING, ''postgres: cleaning old rows failed: %s'', [ArgError err])]"
    by (rule cleanFunc_failure)
next
  show "trace (RunCleaner interval expire start ticks p)
       = trace p @ replicate (Suc (length ticks)) (DBExec (CleanOldRows (expire sdiv 1000000000)))"
    by (rule RunCleaner_trace)
next
  show "RunCleaner interval expire start ticks p
       = foldl (\<lambda>s t. cleanFunc expire t s) p (start # ticks)"
    by (rule RunCleaner_foldl)
qed

text \<open>
  Instances, with an expiry of 20 s at clock reading 100 s: the row last updated 21 s ago
  is deleted and the row last updated 19 s ago survives, and the run logs that one row
  was cleaned up; a run that removes nothing logs nothing; a failed run logs the warning
  and the two ticks after it still run.
\<close>

theorem sweep_deletes_rows_older_than_whole_seconds_witness:
  "fst (CleanExpiredRows 100000000000 20000000000 sweep_rows) = (1, None)
   \<and> kite (snd (CleanExpiredRows 100000000000 20000000000 sweep_rows))
       = [bob_row\<lparr>updated_at := 81000000000\<rparr>]
   \<and> kite (cleanFunc 20000000000 100000000000 sweep_rows)
       = [bob_row\<lparr>updated_at := 81000000000\<rparr>]
   \<and> Log (cleanFunc 20000000000 100000000000 sweep_rows)
       = [(INFO, ''postgres: cleaned up %d rows'', [ArgInt 1])]
   \<and> Log (cleanFunc 20000000000 80000000000 sweep_rows) = []
   \<and> Log (cleanFunc 20000000000 100000000000 failing_store)
       = [(WARNING, ''postgres: cleaning old rows failed: %s'',
           [ArgError (DriverError ''connection reset'')])]
   \<and> trace (RunCleaner 30000000000 20000000000 100000000000 [130000000000, 160000000000]
              failing_store)
       = [DBExec (CleanOldRows 20), DBExec (CleanOldRows 20), DBExec (CleanOldRows 20)]"
proof -
  have c: "carried_out 2 sweep_rows"
    by (simp add: carried_out_def sweep_rows_def)
  have d: "(1000000000::int) dvd 20000000000"
    by simp
  have s: "(20000000000::int) sdiv 1000000000 = 20"
    by (simp add: signed_divide_int_def)
  have k: "kite sweep_rows
             = [alice_row\<lparr>updated_at := 79000000000\<rparr>, bob_row\<lparr>updated_at := 81000000000\<rparr>]"
    by (simp add: sweep_rows_def)
  have l: "Log sweep_rows = []" "trace failing_store = []" "Log failing_store = []"
    by (simp_all add: sweep_rows_def failing_store_def)
  note T = sweep_deletes_rows_older_than_whole_seconds
             [where p = sweep_rows and now = 100000000000 and expire = 20000000000]
  from T c have "fst (CleanExpiredRows 100000000000 20000000000 sweep_rows)
        = (int (length (filter (\<lambda>r. updated_at r
                    < 100000000000 - 1000000000 * (20000000000 sdiv 1000000000))
                          (kite sweep_rows))), None)"
    by blast
  then have w1: "fst (CleanExpiredRows 100000000000 20000000000 sweep_rows) = (1, None)"
    by (simp add: s k)
  from T c d have "kite (snd (CleanExpiredRows 100000000000 20000000000 sweep_rows))
          = filter (\<lambda>r. \<not> updated_at r < 100000000000 - 20000000000) (kite sweep_rows)"
    by blast
  then have w2: "kite (snd (CleanExpiredRows 100000000000 20000000000 sweep_rows))
       = [bob_row\<lparr>updated_at := 81000000000\<rparr>]"
    by (simp add: k)
  from T c have "kite (cleanFunc 20000000000 100000000000 sweep_rows)
          = filter (\<lambda>r. \<not> updated_at r
                      < 100000000000 - 1000000000 * (20000000000 sdiv 1000000000))
              (kite sweep_rows)"
    by blast
  then have w2': "kite (cleanFunc 20000000000 100000000000 sweep_rows)
       = [bob_row\<lparr>updated_at := 81000000000\<rparr>]"
    by (simp add: s k)
  have ne: "filter (\<lambda>r. updated_at r
                      < 100000000000 - 1000000000 * (20000000000 sdiv 1000000000))
              (kite sweep_rows) \<noteq> []"
    by (simp add: s k)
  from T c ne have "Log (cleanFunc 20000000000 100000000000 sweep_rows)
            = Log sweep_rows @ [(INFO, ''postgres: cleaned up %d rows'',
                        [ArgInt (int (length (filter
                            (\<lambda>r. updated_at r
                               < 100000000000 - 1000000000 * (20000000000 sdiv 1000000000))
                            (kite sweep_rows))))])]"
    by blast
  then have w2'': "Log (cleanFunc 20000000000 100000000000 sweep_rows)
       = [(INFO, ''postgres: cleaned up %d rows'', [ArgInt 1])]"
    by (simp add: s k l)
  note U = sweep_deletes_rows_older_than_whole_seconds
             [where p = sweep_rows and now = 80000000000 and expire = 20000000000]
  have e: "filter (\<lambda>r. updated_at r < 80000000000 - 1000000000 * (20000000000 sdiv 1000000000))
             (kite sweep_rows) = []"
    by (simp add: s k)
  from U c e have "Log (cleanFunc 20000000000 80000000000 sweep_rows) = Log sweep_rows"
    by blast
  then have w3: "Log (cleanFunc 20000000000 80000000000 sweep_rows) = []"
    by (simp add: l)
  note V = sweep_deletes_rows_older_than_whole_seconds
             [where p = failing_store and now = 100000000000 and expire = 20000000000
                and interval = 30000000000 and start = 100000000000
                and ticks = "[130000000000, 160000000000]"]
  have f: "snd (fst (CleanExpiredRows 100000000000 20000000000 failing_store))
             = Some (DriverError ''connection reset'')"
    by (simp add: CleanExpiredRows_eq next_outcome_def failing_store_def)
  from V f have "Log (cleanFunc 20000000000 100000000000 failing_store)
          = Log failing_store @ [(WARNING, ''postgres: cleaning old rows failed: %s'',
                                  [ArgError (DriverError ''connection reset'')])]"
    by blast
  then have w4: "Log (cleanFunc 20000000000 100000000000 failing_store)
       = [(WARNING, ''postgres: cleaning old rows failed: %s'',
           [ArgError (DriverError ''connection reset'')])]"
    by (simp add: l)
  from V have "trace (RunCleaner 30000000000 20000000000 100000000000
                  [130000000000, 160000000000] failing_store)
       = trace failing_store @ replicate (Suc (length [130000000000, 160000000000::int]))
           (DBExec (CleanOldRows (20000000000 sdiv 1000000000)))"
    by blast
  then have w5: "trace (RunCleaner 30000000000 20000000000 100000000000
                  [130000000000, 160000000000] failing_store)
       = [DBExec (CleanOldRows 20), DBExec (CleanOldRows 20), DBExec (CleanOldRows 20)]"
    by (simp add: s l)
  show ?thesis
    using w1 w2 w2' w2'' w3 w4 w5 by simp
qed

text \<open>
  C7 as stated does not hold for an expiry age with a fraction of a second: with 1.9 s, a
  row last updated 1.5 s ago is deleted although it is not older than the expiry age.
\<close>

theorem sweep_subsecond_expiry_counterexample:
  "kite (snd (CleanExpiredRows 10000000000 1900000000
            \<lparr>kite = [alice_row\<lparr>updated_at := 8500000000\<rparr>], faults = [], trace = [], Log = []\<rparr>))
     \<noteq> filter (\<lambda>r. \<not> updated_at r < 10000000000 - 1900000000)
          [alice_row\<lparr>updated_at := 8500000000\<rparr>]"
  by (simp add: CleanExpiredRows_eq RowsAffected_eq next_outcome_def signed_divide_int_def)

lemma all_older_removed:
  assumes "list_all (\<lambda>r. updated_at r < now) t" and "n \<le> 0"
  shows "filter (\<lambda>r. \<not> updated_at r < now - 1000000000 * n) t = []"
proof -
  have "now \<le> now - 1000000000 * n"
    using assms(2) by simp
  then show ?thesis
    using assms(1) by (auto simp: filter_empty_conv list_all_iff)
qed

lemma sdiv_nonpos: "d < 0 \<Longrightarrow> d sdiv (1000000000::int) \<le> 0"
  by (simp add: signed_divide_int_def pos_imp_zdiv_nonneg_iff)

lemma CleanExpiredRows_floor:
  assumes "carried_out 1 p" and "0 \<le> d \<or> list_all (\<lambda>r. updated_at r < now) (kite p)"
  shows "kite (snd (CleanExpiredRows now d p))
           = filter (\<lambda>r. \<not> updated_at r < now - 1000000000 * (d div 1000000000)) (kite p)"
proof (cases "0 \<le> d")
  case True
  then show ?thesis
    using CleanExpiredRows_kite [OF assms(1), of now d] by (simp add: sdiv_nonneg)
next
  case False
  then have neg: "d < 0" by simp
  with assms(2) have past: "list_all (\<lambda>r. updated_at r < now) (kite p)"
    by simp
  have f: "d div 1000000000 \<le> 0"
    using neg by (simp add: div_nonpos_pos_le0)
  have "kite (snd (CleanExpiredRows now d p)) = []"
    using CleanExpiredRows_kite [OF assms(1), of now d]
      all_older_removed [OF past sdiv_nonpos [OF neg]] by simp
  then show ?thesis
    using all_older_removed [OF past f] by simp
qed

text \<open>
  C10. \<^verbatim>\<open>CleanExpiredRows\<close> cuts the expiry duration to whole seconds by integer
  division by one second before the comparison. For an expiry age \<open>d\<close> (\<open>0 \<le> d\<close>) the
  statement is sent with \<open>d div 1 s\<close>, the floor of \<open>d\<close> in seconds, and on a store that
  carries it out the rows deleted are exactly those whose \<^verbatim>\<open>updated_at\<close> is older than
  now minus that many seconds; the same holds for any duration when every row was last
  updated before now. An expiry under one second behaves as zero seconds, and 1.9 s
  behaves as 1 s.
\<close>

theorem CleanExpiredRows_whole_seconds:
  "(0 \<le> d \<longrightarrow>
      trace (snd (CleanExpiredRows now d p))
        = trace p @ [DBExec (CleanOldRows (d div 1000000000))])
   \<and> (carried_out 1 p \<and> 0 \<le> d \<longrightarrow>
        kite (snd (CleanExpiredRows now d p))
          = filter (\<lambda>r. \<not> updated_at r < now - 1000000000 * (d div 1000000000)) (kite p))
   \<and> (carried_out 1 p \<and> list_all (\<lambda>r. updated_at r < now) (kite p) \<longrightarrow>
        kite (snd (CleanExpiredRows now d p))
          = filter (\<lambda>r. \<not> updated_at r < now - 1000000000 * (d div 1000000000)) (kite p))
   \<and> (0 \<le> d \<and> d < 1000000000 \<longrightarrow> CleanExpiredRows now d p = CleanExpiredRows now 0 p)
   \<and> CleanExpiredRows now 1900000000 p = CleanExpiredRows now 1000000000 p"
proof (intro conjI impI)
  assume "0 \<le> d"
  then show "trace (snd (CleanExpiredRows now d p))
        = trace p @ [DBExec (CleanOldRows (d div 1000000000))]"
    by (simp add: CleanExpiredRows_trace sdiv_nonneg)
next
  assume "carried_out 1 p \<and> 0 \<le> d"
  then show "kite (snd (CleanExpiredRows now d p))
          = filter (\<lambda>r. \<not> updated_at r < now - 1000000000 * (d div 1000000000)) (kite p)"
    by (intro CleanExpiredRows_floor) simp_all
next
  assume "carried_out 1 p \<and> list_all (\<lambda>r. updated_at r < now) (kite p)"
  then show "kite (snd (CleanExpiredRows now d p))
          = filter (\<lambda>r. \<not> updated_at r < now - 1000000000 * (d div 1000000000)) (kite p)"
    by (intro CleanExpiredRows_floor) simp_all
next
  assume "0 \<le> d \<and> d < 1000000000"
  then have "d sdiv 1000000000 = 0"
    by (simp add: sdiv_nonneg)
  then show "CleanExpiredRows now d p = CleanExpiredRows now 0 p"
    by (simp add: CleanExpiredRows_def)
next
  have "(1900000000::int) sdiv 1000000000 = 1000000000 sdiv 1000000000"
    by (simp add: signed_divide_int_def)
  then show "CleanExpiredRows now 1900000000 p = CleanExpiredRows now 1000000000 p"
    by (simp add: CleanExpiredRows_def)
qed

text \<open>
  Instances at clock reading 100 s, with one row last updated 1.5 s ago and one 0.5 s
  ago: an expiry of 1.9 s sends 1 and deletes the first row only, as 1 s does; an expiry
  of 0.999999999 s behaves as 0 s; and for the duration -1.5 s both rows, updated before
  now, are deleted, as with its floor.
\<close>

theorem CleanExpiredRows_whole_seconds_witness:
  "trace (snd (CleanExpiredRows 100000000000 1900000000 recent_rows))
     = [DBExec (CleanOldRows 1)]
   \<and> kite (snd (CleanExpiredRows 100000000000 1900000000 recent_rows))
     = [bob_row\<lparr>updated_at := 99500000000\<rparr>]
   \<and> kite (snd (CleanExpiredRows 100000000000 (- 1500000000) recent_rows)) = []
   \<and> CleanExpiredRows 100000000000 999999999 recent_rows
       = CleanExpiredRows 100000000000 0 recent_rows"
proof -
  have c: "carried_out 1 recent_rows"
    by (simp add: carried_out_def recent_rows_def)
  have k: "kite recent_rows
             = [alice_row\<lparr>updated_at := 98500000000\<rparr>, bob_row\<lparr>updated_at := 99500000000\<rparr>]"
    and t: "trace recent_rows = []"
    by (simp_all add: recent_rows_def)
  note T = CleanExpiredRows_whole_seconds
             [where p = recent_rows and now = 100000000000 and d = 1900000000]
  have p: "(0::int) \<le> 1900000000"
    by simp
  from T p have "trace (snd (CleanExpiredRows 100000000000 1900000000 recent_rows))
        = trace recent_rows @ [DBExec (CleanOldRows (1900000000 div 1000000000))]"
    by blast
  then have w0: "trace (snd (CleanExpiredRows 100000000000 1900000000 recent_rows))
     = [DBExec (CleanOldRows 1)]"
    by (simp add: t)
  from T c p have "kite (snd (CleanExpiredRows 100000000000 1900000000 recent_rows))
          = filter (\<lambda>r. \<not> updated_at r < 100000000000 - 1000000000 * (1900000000 div 1000000000))
              (kite recent_rows)"
    by blast
  then have w1: "kite (snd (CleanExpiredRows 100000000000 1900000000 recent_rows))
     = [bob_row\<lparr>updated_at := 99500000000\<rparr>]"
    by (simp add: k)
  note U = CleanExpiredRows_whole_seconds
             [where p = recent_rows and now = 100000000000 and d = "- 1500000000"]
  have past: "list_all (\<lambda>r. updated_at r < 100000000000) (kite recent_rows)"
    by (simp add: k)
  from U c past have "kite (snd (CleanExpiredRows 100000000000 (- 1500000000) recent_rows))
        = filter (\<lambda>r. \<not> updated_at r
                    < 100000000000 - 1000000000 * ((- 1500000000) div 1000000000))
            (kite recent_rows)"
    by blast
  then have w2: "kite (snd (CleanExpiredRows 100000000000 (- 1500000000) recent_rows)) = []"
    by (simp add: k)
  note V = CleanExpiredRows_whole_seconds
             [where p = recent_rows and now = 100000000000 and d = 999999999]
  have q: "(0::int) \<le> 999999999 \<and> (999999999::int) < 1000000000"
    by simp
  from V q have w3: "CleanExpiredRows 100000000000 999999999 recent_rows
       = CleanExpiredRows 100000000000 0 recent_rows"
    by blast
  show ?thesis
    using w0 w1 w2 w3 by simp
qed

text \<open>
  The floor and Go's division differ only for a negative duration that is not a whole
  number of seconds, and the difference shows only on a row not updated before now: with
  -0.5 s the statement is sent with 0, and a row updated at the very instant of the run
  is kept.
\<close>

lemma CleanExpiredRows_negative_duration:
  "CleanExpiredRows 10000000000 (- 500000000)
     \<lparr>kite = [alice_row\<lparr>updated_at := 10000000000\<rparr>], faults = [], trace = [], Log = []\<rparr>
   = ((0, None),
      \<lparr>kite = [alice_row\<lparr>updated_at := 10000000000\<rparr>], faults = [],
       trace = [DBExec (CleanOldRows 0)], Log = []\<rparr>)"
  by (simp add: CleanExpiredRows_eq RowsAffected_eq next_outcome_def signed_divide_int_def)

end
